theory Spec2Isabelle
  imports Complex_Main "HOL-Library.Word"
begin

section \<open>JavaScript values\<close>

text \<open>
  The backend (\<^verbatim>\<open>src/server/index.js\<close>) is an Express application. Its handlers work on
  untyped JSON values, catch exceptions, keep two process-wide variables and talk to the
  network, the clock and the file system. The model below makes each of these explicit.

  A JavaScript string is a sequence of UTF-16 code units.
\<close>

type_synonym jsstring = "16 word list"

definition js :: "string \<Rightarrow> jsstring" where
  "js s = map (\<lambda>c. of_char c) s"

text \<open>
  JSON values as the handlers see them after parsing. A number is carried as the value
  of its literal; the handlers only test a number for truthiness and pass it on, so no
  arithmetic is done on it. An object is an association list of its own properties.
\<close>

datatype jsval =
    JUndefined
  | JNull
  | JBool bool
  | JNum rat
  | JStr jsstring
  | JArr "jsval list"
  | JObj "(jsstring \<times> jsval) list"

datatype js_error =
    TypeError
  | URIError
  | AxiosError "nat option"
  | FsError
  | Error jsstring

text \<open>Truthiness, as tested by \<^verbatim>\<open>!x\<close>, \<^verbatim>\<open>if (x)\<close> and \<^verbatim>\<open>x || y\<close>.\<close>

fun truthy :: "jsval \<Rightarrow> bool" where
  "truthy JUndefined = False"
| "truthy JNull = False"
| "truthy (JBool b) = b"
| "truthy (JNum n) = (n \<noteq> 0)"
| "truthy (JStr s) = (s \<noteq> [])"
| "truthy (JArr xs) = True"
| "truthy (JObj fs) = True"

definition js_or :: "jsval \<Rightarrow> jsval \<Rightarrow> jsval" where
  "js_or a b = (if truthy a then a else b)"

fun nullish :: "jsval \<Rightarrow> bool" where
  "nullish JUndefined = True"
| "nullish JNull = True"
| "nullish v = False"

text \<open>
  Reading a data property \<^verbatim>\<open>v.k\<close>. On \<^verbatim>\<open>null\<close> and \<^verbatim>\<open>undefined\<close> it throws a
  TypeError; on an object it is the own property or \<^verbatim>\<open>undefined\<close>. The keys the source
  reads this way (\<^verbatim>\<open>message\<close>, \<^verbatim>\<open>systemMessage\<close>, \<^verbatim>\<open>text\<close>, \<^verbatim>\<open>id\<close>, \<^verbatim>\<open>output\<close>,
  \<^verbatim>\<open>content\<close>, \<^verbatim>\<open>cost\<close>) are not properties of arrays, strings, numbers or booleans,
  so there the read gives \<^verbatim>\<open>undefined\<close>.
\<close>

fun get_prop :: "jsval \<Rightarrow> jsstring \<Rightarrow> js_error + jsval" where
  "get_prop JUndefined k = Inl TypeError"
| "get_prop JNull k = Inl TypeError"
| "get_prop (JObj fs) k = (case map_of fs k of None \<Rightarrow> Inr JUndefined | Some v \<Rightarrow> Inr v)"
| "get_prop v k = Inr JUndefined"

text \<open>Optional chaining \<^verbatim>\<open>v?.k\<close> and \<^verbatim>\<open>v?.[0]\<close>: \<^verbatim>\<open>undefined\<close> on a nullish base.\<close>

definition opt_prop :: "jsval \<Rightarrow> jsstring \<Rightarrow> jsval" where
  "opt_prop v k = (case get_prop v k of Inl e \<Rightarrow> JUndefined | Inr x \<Rightarrow> x)"

fun opt_index0 :: "jsval \<Rightarrow> jsval" where
  "opt_index0 (JArr []) = JUndefined"
| "opt_index0 (JArr (x # xs)) = x"
| "opt_index0 (JStr []) = JUndefined"
| "opt_index0 (JStr (c # cs)) = JStr [c]"
| "opt_index0 (JObj fs) = (case map_of fs (js ''0'') of None \<Rightarrow> JUndefined | Some v \<Rightarrow> v)"
| "opt_index0 v = JUndefined"

subsection \<open>String methods\<close>

text \<open>\<^verbatim>\<open>String.prototype.trim\<close> strips white space and line terminators at both ends.\<close>

definition is_space :: "16 word \<Rightarrow> bool" where
  "is_space c \<longleftrightarrow>
     c = 0x0009 \<or> c = 0x000A \<or> c = 0x000B \<or> c = 0x000C \<or> c = 0x000D \<or> c = 0x0020 \<or>
     c = 0x00A0 \<or> c = 0x1680 \<or> (0x2000 \<le> c \<and> c \<le> 0x200A) \<or> c = 0x2028 \<or> c = 0x2029 \<or>
     c = 0x202F \<or> c = 0x205F \<or> c = 0x3000 \<or> c = 0xFEFF"

definition trim :: "jsstring \<Rightarrow> jsstring" where
  "trim s = rev (dropWhile is_space (rev (dropWhile is_space s)))"

text \<open>
  \<^verbatim>\<open>message.trim()\<close> on an arbitrary value: only a string has a callable \<^verbatim>\<open>trim\<close>.
  On every other JSON value the property is missing or not a function, and the call
  throws a TypeError.
\<close>

fun call_trim :: "jsval \<Rightarrow> js_error + jsval" where
  "call_trim (JStr s) = Inr (JStr (trim s))"
| "call_trim v = Inl TypeError"

text \<open>
  \<^verbatim>\<open>s.substring(a, b)\<close> with non-negative integer arguments: both are clamped to the
  length and swapped when out of order.
\<close>

definition substring :: "jsstring \<Rightarrow> nat \<Rightarrow> nat \<Rightarrow> jsstring" where
  "substring s a b =
     (let n = length s; fs = min a n; fe = min b n; from = min fs fe; to = max fs fe
      in take (to - from) (drop from s))"

fun call_substring :: "jsval \<Rightarrow> nat \<Rightarrow> nat \<Rightarrow> js_error + jsstring" where
  "call_substring (JStr s) a b = Inr (substring s a b)"
| "call_substring v a b = Inl TypeError"

text \<open>
  \<^verbatim>\<open>encodeURIComponent\<close>: an unreserved code unit is copied; any other code point is
  encoded in UTF-8 and each octet written as \<^verbatim>\<open>%XX\<close> in upper-case hexadecimal. A
  surrogate without its partner throws a URIError.
\<close>

definition unreserved :: "16 word \<Rightarrow> bool" where
  "unreserved c \<longleftrightarrow>
     (0x41 \<le> c \<and> c \<le> 0x5A) \<or> (0x61 \<le> c \<and> c \<le> 0x7A) \<or> (0x30 \<le> c \<and> c \<le> 0x39) \<or>
     c \<in> set (js ''-_.!~*()'') \<or> c = 0x27"

definition hex_digit :: "nat \<Rightarrow> 16 word" where
  "hex_digit d = (if d < 10 then of_nat (48 + d) else of_nat (55 + d))"

definition percent :: "nat \<Rightarrow> jsstring" where
  "percent b = [0x25, hex_digit (b div 16), hex_digit (b mod 16)]"

definition utf8 :: "nat \<Rightarrow> nat list" where
  "utf8 cp =
     (if cp < 0x80 then [cp]
      else if cp < 0x800 then [0xC0 + cp div 64, 0x80 + cp mod 64]
      else if cp < 0x10000 then [0xE0 + cp div 4096, 0x80 + (cp div 64) mod 64, 0x80 + cp mod 64]
      else [0xF0 + cp div 262144, 0x80 + (cp div 4096) mod 64, 0x80 + (cp div 64) mod 64,
            0x80 + cp mod 64])"

definition is_lead :: "16 word \<Rightarrow> bool" where
  "is_lead c \<longleftrightarrow> 0xD800 \<le> c \<and> c \<le> 0xDBFF"

definition is_trail :: "16 word \<Rightarrow> bool" where
  "is_trail c \<longleftrightarrow> 0xDC00 \<le> c \<and> c \<le> 0xDFFF"

definition pair_code_point :: "16 word \<Rightarrow> 16 word \<Rightarrow> nat" where
  "pair_code_point c d = (unat c - 0xD800) * 0x400 + (unat d - 0xDC00) + 0x10000"

definition escape :: "nat \<Rightarrow> jsstring" where
  "escape cp = concat (map percent (utf8 cp))"

fun encodeURIComponent :: "jsstring \<Rightarrow> js_error + jsstring" where
  "encodeURIComponent [] = Inr []"
| "encodeURIComponent (c # cs) =
     (if unreserved c then
        (case encodeURIComponent cs of Inl e \<Rightarrow> Inl e | Inr r \<Rightarrow> Inr (c # r))
      else if \<not> is_lead c \<and> \<not> is_trail c then
        (case encodeURIComponent cs of Inl e \<Rightarrow> Inl e | Inr r \<Rightarrow> Inr (escape (unat c) @ r))
      else if is_trail c then Inl URIError
      else
        (case cs of
           [] \<Rightarrow> Inl URIError
         | d # ds \<Rightarrow>
             if is_trail d then
               (case encodeURIComponent ds of
                  Inl e \<Rightarrow> Inl e
                | Inr r \<Rightarrow> Inr (escape (pair_code_point c d) @ r))
             else Inl URIError))"

text \<open>The decimal digits of a non-negative integer, as \<^verbatim>\<open>`${Date.now()}`\<close> prints it.\<close>

fun digits :: "nat \<Rightarrow> jsstring" where
  "digits n = (if n < 10 then [of_nat (48 + n)] else digits (n div 10) @ [of_nat (48 + n mod 10)])"

declare digits.simps [simp del]

section \<open>The server's state and its surroundings\<close>

text \<open>
  What a file under \<^verbatim>\<open>public/audio\<close> holds: audio bytes, or the companion text written by
  the demo tier. The text is kept as the two values spliced into its template: the
  spoken text and the locale-formatted time.
\<close>

datatype file_content = Audio "8 word list" | SpokenText jsval jsstring

text \<open>An outbound HTTP request: URL, JSON payload for a POST, and headers.\<close>

datatype request =
    Post jsstring jsval "(jsstring \<times> jsstring) list"
  | Get jsstring "(jsstring \<times> jsstring) list"

text \<open>
  The state of the process and of its disk. \<open>ASSISTANT_ID\<close> and \<open>audioFiles\<close> are the
  two module-level variables. \<open>audio_dir\<close> tells whether \<^verbatim>\<open>public/audio\<close> exists and
  \<open>disk\<close> maps a file name in that directory to its content (every path the source
  builds is \<^verbatim>\<open>path.join(__dirname, 'public/audio', name)\<close>). \<open>sent\<close> records the
  outbound requests in order, and \<open>tick\<close> counts the interactions with the outside.
\<close>

record world =
  ASSISTANT_ID :: jsval
  audioFiles :: "jsstring \<rightharpoonup> jsval"
  audio_dir :: bool
  disk :: "jsstring \<rightharpoonup> file_content"
  sent :: "request list"
  tick :: nat

text \<open>
  What the outside answers. Each interaction is numbered by \<open>tick\<close>, so the surroundings
  may answer every call differently: the clock, the provider and the TTS endpoint, and
  whether a directory creation or a file write goes through.
\<close>

datatype 'a outcome = Reply nat 'a | NoReply

record environment =
  env_VAPI_API_KEY :: "jsstring option"
  clock :: "nat \<Rightarrow> nat"
  locale_time :: "nat \<Rightarrow> jsstring"
  post_outcome :: "nat \<Rightarrow> jsstring \<Rightarrow> jsval \<Rightarrow> jsval outcome"
  get_outcome :: "nat \<Rightarrow> jsstring \<Rightarrow> (8 word list) outcome"
  mkdir_ok :: "nat \<Rightarrow> bool"
  write_ok :: "nat \<Rightarrow> jsstring \<Rightarrow> bool"

text \<open>A computation reads and changes the world and either returns or throws.\<close>

type_synonym 'a io = "world \<Rightarrow> (js_error + 'a) \<times> world"

definition io_return :: "'a \<Rightarrow> 'a io" where
  "io_return a w = (Inr a, w)"

definition io_throw :: "js_error \<Rightarrow> 'a io" where
  "io_throw e w = (Inl e, w)"

definition io_lift :: "js_error + 'a \<Rightarrow> 'a io" where
  "io_lift r w = (r, w)"

definition io_bind :: "'a io \<Rightarrow> ('a \<Rightarrow> 'b io) \<Rightarrow> 'b io" where
  "io_bind m f w = (case m w of (Inl e, w') \<Rightarrow> (Inl e, w') | (Inr a, w') \<Rightarrow> f a w')"

definition try_catch :: "'a io \<Rightarrow> (js_error \<Rightarrow> 'a io) \<Rightarrow> 'a io" where
  "try_catch m h w = (case m w of (Inl e, w') \<Rightarrow> h e w' | (Inr a, w') \<Rightarrow> (Inr a, w'))"

subsection \<open>Configuration\<close>

definition VAPI_BASE_URL :: jsstring where
  "VAPI_BASE_URL = js ''https://api.vapi.ai''"

definition VAPI_API_KEY :: "environment \<Rightarrow> jsstring" where
  "VAPI_API_KEY env =
     (case env_VAPI_API_KEY env of
        None \<Rightarrow> js ''44a43177-eed7-4ccf-a2f7-3d42a94507be''
      | Some k \<Rightarrow> if k \<noteq> [] then k else js ''44a43177-eed7-4ccf-a2f7-3d42a94507be'')"

definition vapi_headers :: "environment \<Rightarrow> (jsstring \<times> jsstring) list" where
  "vapi_headers env =
     [(js ''Authorization'', js ''Bearer '' @ VAPI_API_KEY env),
      (js ''Content-Type'', js ''application/json'')]"

subsection \<open>The outside calls\<close>

text \<open>
  \<^verbatim>\<open>axios.post\<close> and \<^verbatim>\<open>axios.get\<close> resolve with the response data on a 2xx status and
  reject otherwise: with \<^verbatim>\<open>error.response.status\<close> set when the server answered, without
  a response on a network failure or a timeout (the TTS call sets one of 15 seconds; how
  long a call takes is not modelled, only whether it was answered).
\<close>

fun settle :: "'a outcome \<Rightarrow> js_error + 'a" where
  "settle (Reply st d) =
     (if 200 \<le> st \<and> st < 300 then Inr d else Inl (AxiosError (Some st)))"
| "settle NoReply = Inl (AxiosError None)"

definition axios_post :: "environment \<Rightarrow> jsstring \<Rightarrow> jsval \<Rightarrow> (jsstring \<times> jsstring) list \<Rightarrow> jsval io" where
  "axios_post env url payload hs w =
     (settle (post_outcome env (tick w) url payload),
      w\<lparr>sent := sent w @ [Post url payload hs], tick := Suc (tick w)\<rparr>)"

definition axios_get :: "environment \<Rightarrow> jsstring \<Rightarrow> (jsstring \<times> jsstring) list \<Rightarrow> (8 word list) io" where
  "axios_get env url hs w =
     (settle (get_outcome env (tick w) url),
      w\<lparr>sent := sent w @ [Get url hs], tick := Suc (tick w)\<rparr>)"

definition date_now :: "environment \<Rightarrow> nat io" where
  "date_now env w = (Inr (clock env (tick w)), w\<lparr>tick := Suc (tick w)\<rparr>)"

definition date_toLocaleString :: "environment \<Rightarrow> jsstring io" where
  "date_toLocaleString env w = (Inr (locale_time env (tick w)), w\<lparr>tick := Suc (tick w)\<rparr>)"

definition existsSync_audio_dir :: "bool io" where
  "existsSync_audio_dir w = (Inr (audio_dir w), w)"

definition mkdirSync_audio_dir :: "environment \<Rightarrow> unit io" where
  "mkdirSync_audio_dir env w =
     (if mkdir_ok env (tick w) then (Inr (), w\<lparr>audio_dir := True, tick := Suc (tick w)\<rparr>)
      else (Inl FsError, w\<lparr>tick := Suc (tick w)\<rparr>))"

text \<open>A write fails when the directory is missing or when the surroundings refuse it.\<close>

definition writeFileSync :: "environment \<Rightarrow> jsstring \<Rightarrow> file_content \<Rightarrow> unit io" where
  "writeFileSync env name c w =
     (if audio_dir w \<and> write_ok env (tick w) name
      then (Inr (), w\<lparr>disk := (disk w)(name \<mapsto> c), tick := Suc (tick w)\<rparr>)
      else (Inl FsError, w\<lparr>tick := Suc (tick w)\<rparr>))"

section \<open>Assistant lifecycle\<close>

definition assistant_config :: jsval where
  "assistant_config =
     JObj [(js ''name'', JStr (js ''Conversational AI Assistant'')),
           (js ''firstMessage'', JStr (js ''Hello! I'm your AI assistant. How can I help you today?'')),
           (js ''model'', JObj
              [(js ''provider'', JStr (js ''openai'')),
               (js ''model'', JStr (js ''gpt-3.5-turbo'')),
               (js ''temperature'', JNum (7 / 10)),
               (js ''messages'', JArr
                  [JObj [(js ''role'', JStr (js ''system'')),
                         (js ''content'', JStr (js ''You are a helpful, friendly, and knowledgeable AI assistant. Provide clear, concise, and engaging responses. Keep your answers informative but not too long.''))]])]),
           (js ''voice'', JObj
              [(js ''provider'', JStr (js ''11labs'')),
               (js ''voiceId'', JStr (js ''21m00Tcm4TlvDq8ikWAM''))])]"

definition assistant_url :: jsstring where
  "assistant_url = VAPI_BASE_URL @ js ''/assistant''"

definition set_ASSISTANT_ID :: "jsval \<Rightarrow> jsval io" where
  "set_ASSISTANT_ID v w = (Inr v, w\<lparr>ASSISTANT_ID := v\<rparr>)"

definition getOrCreateAssistant :: "environment \<Rightarrow> jsval io" where
  "getOrCreateAssistant env w =
     (if truthy (ASSISTANT_ID w) then (Inr (ASSISTANT_ID w), w)
      else
        try_catch
          (io_bind (axios_post env assistant_url assistant_config (vapi_headers env)) (\<lambda>data.
           io_bind (io_lift (get_prop data (js ''id''))) (\<lambda>ident.
           set_ASSISTANT_ID ident)))
          (\<lambda>error. io_throw error) w)"

section \<open>Audio generation\<close>

definition mp3Header :: "8 word list" where
  "mp3Header =
     [0xFF, 0xFB, 0x90, 0x00,
      0x00, 0x00, 0x00, 0x00, 0x00, 0x00, 0x00, 0x00,
      0x00, 0x00, 0x00, 0x00, 0x00, 0x00, 0x00, 0x00,
      0x00, 0x00, 0x00, 0x00, 0x00, 0x00, 0x00, 0x00]"

definition minimalMp3 :: "8 word list" where
  "minimalMp3 = [0xFF, 0xFB, 0x90, 0x00, 0x00, 0x00, 0x00, 0x00]"

definition tts_headers :: "(jsstring \<times> jsstring) list" where
  "tts_headers =
     [(js ''User-Agent'', js ''Mozilla/5.0 (Windows NT 10.0; Win64; x64) AppleWebKit/537.36 (KHTML, like Gecko) Chrome/91.0.4472.124 Safari/537.36'')]"

definition ttsUrl :: "jsstring \<Rightarrow> jsstring" where
  "ttsUrl encodedText =
     js ''https://translate.google.com/translate_tts?ie=UTF-8&q='' @ encodedText @ js ''&tl=en&client=tw-ob''"

text \<open>The inner \<^verbatim>\<open>try\<close> block: the primary tier.\<close>

definition generateAudio_primary :: "environment \<Rightarrow> jsval \<Rightarrow> jsstring \<Rightarrow> jsstring io" where
  "generateAudio_primary env text audioFileName =
     io_bind (io_lift (call_substring text 0 200)) (\<lambda>sub.
     io_bind (io_lift (encodeURIComponent sub)) (\<lambda>encodedText.
     io_bind (axios_get env (ttsUrl encodedText) tts_headers) (\<lambda>data.
     io_bind (writeFileSync env audioFileName (Audio data)) (\<lambda>_.
     io_return audioFileName))))"

text \<open>
  A template literal converts the spliced value to a string. For JSON values this throws a
  TypeError exactly when it meets an object with an own \<^verbatim>\<open>toString\<close> member (which cannot
  be a function): directly, or as an element of an array, whose conversion joins the
  conversions of its elements. The converted text itself is not rendered.
\<close>

fun stringifiable :: "jsval \<Rightarrow> bool" where
  "stringifiable (JArr xs) = (\<forall>x \<in> set xs. stringifiable x)"
| "stringifiable (JObj fs) = (map_of fs (js ''toString'') = None)"
| "stringifiable v = True"

definition interpolate :: "jsval \<Rightarrow> js_error + jsval" where
  "interpolate v = (if stringifiable v then Inr v else Inl TypeError)"

text \<open>The inner \<^verbatim>\<open>catch\<close> block: the demo tier.\<close>

definition generateAudio_demo :: "environment \<Rightarrow> jsval \<Rightarrow> jsstring \<Rightarrow> jsstring io" where
  "generateAudio_demo env text audioFileName =
     io_bind (writeFileSync env audioFileName (Audio mp3Header)) (\<lambda>_.
     io_bind (date_now env) (\<lambda>t.
     io_bind (io_lift (interpolate text)) (\<lambda>spoken.
     io_bind (date_toLocaleString env) (\<lambda>generated.
     io_bind (writeFileSync env (js ''response_text_'' @ digits t @ js ''.txt'')
                (SpokenText spoken generated)) (\<lambda>_.
     io_return audioFileName)))))"

text \<open>The outer \<^verbatim>\<open>try\<close> block.\<close>

definition generateAudio_try :: "environment \<Rightarrow> jsval \<Rightarrow> jsstring io" where
  "generateAudio_try env text =
     io_bind (date_now env) (\<lambda>t.
     io_bind existsSync_audio_dir (\<lambda>ex.
     io_bind (if \<not> ex then mkdirSync_audio_dir env else io_return ()) (\<lambda>_.
     try_catch
       (generateAudio_primary env text (js ''response_'' @ digits t @ js ''.mp3''))
       (\<lambda>apiError. generateAudio_demo env text (js ''response_'' @ digits t @ js ''.mp3'')))))"

text \<open>The outer \<^verbatim>\<open>catch\<close> block: the final fallback.\<close>

definition generateAudio_fallback :: "environment \<Rightarrow> jsstring io" where
  "generateAudio_fallback env =
     try_catch
       (io_bind (date_now env) (\<lambda>t.
        io_bind (writeFileSync env (js ''fallback_'' @ digits t @ js ''.mp3'') (Audio minimalMp3)) (\<lambda>_.
        io_return (js ''fallback_'' @ digits t @ js ''.mp3''))))
       (\<lambda>fallbackError. io_throw (Error (js ''Failed to generate audio'')))"

definition generateAudio :: "environment \<Rightarrow> jsval \<Rightarrow> jsstring io" where
  "generateAudio env text =
     try_catch (generateAudio_try env text) (\<lambda>error. generateAudio_fallback env)"

section \<open>HTTP surface\<close>

datatype http_body = Json jsval | FileBody file_content

record http_response =
  status :: nat
  body :: http_body

text \<open>
  \<^verbatim>\<open>res.json(obj)\<close> leaves the status at 200; \<^verbatim>\<open>res.status(n).json(obj)\<close> sets it. The
  object is kept as the handler builds it (a member that is \<^verbatim>\<open>undefined\<close> is dropped only
  when the object is serialised).
\<close>

definition res_json :: "nat \<Rightarrow> (jsstring \<times> jsval) list \<Rightarrow> http_response" where
  "res_json st members = \<lparr>status = st, body = Json (JObj members)\<rparr>"

subsection \<open>GET /api/health and GET /api/config\<close>



subsection \<open>POST /api/chat\<close>

definition chat_url :: jsstring where
  "chat_url = VAPI_BASE_URL @ js ''/chat''"

definition no_response_text :: jsstring where
  "no_response_text = js ''Sorry, I couldn't generate a response.''"

text \<open>\<^verbatim>\<open>vapiResponse.output?.[0]?.content || 'Sorry, ...'\<close>, given \<^verbatim>\<open>vapiResponse.output\<close>.\<close>

definition assistantMessage :: "jsval \<Rightarrow> jsval" where
  "assistantMessage output =
     js_or (opt_prop (opt_index0 output) (js ''content'')) (JStr no_response_text)"

text \<open>
  The handler's \<^verbatim>\<open>try\<close> block is split here where the source's own comments split it.
  First the provider: the assistant is obtained, the message trimmed, and the chat turn
  posted; the result is \<^verbatim>\<open>response.data\<close>.
\<close>

definition chat_provider :: "environment \<Rightarrow> jsval \<Rightarrow> jsval io" where
  "chat_provider env message =
     io_bind (getOrCreateAssistant env) (\<lambda>assistantId.
     io_bind (io_lift (call_trim message)) (\<lambda>input.
     axios_post env chat_url
       (JObj [(js ''assistantId'', assistantId), (js ''input'', input)])
       (vapi_headers env)))"

text \<open>
  Then the answer: the text is extracted, the audio generated (a failure is caught on the
  spot and leaves \<^verbatim>\<open>audioFileName\<close> at \<^verbatim>\<open>null\<close>), and the response built.
\<close>

definition chat_respond :: "environment \<Rightarrow> jsval \<Rightarrow> http_response io" where
  "chat_respond env vapiResponse =
     io_bind (io_lift (get_prop vapiResponse (js ''output''))) (\<lambda>output.
     io_bind (try_catch
                (io_bind (generateAudio env (assistantMessage output)) (\<lambda>f. io_return (JStr f)))
                (\<lambda>audioError. io_return JNull)) (\<lambda>audioFileName.
     io_bind (io_lift (get_prop vapiResponse (js ''id''))) (\<lambda>chatId.
     io_bind (io_lift (get_prop vapiResponse (js ''cost''))) (\<lambda>cost.
     io_return (res_json 200
       [(js ''response'', assistantMessage output),
        (js ''audioFileName'', audioFileName),
        (js ''chatId'', chatId),
        (js ''cost'', js_or cost (JNum 0))])))))"

text \<open>
  The whole \<^verbatim>\<open>try\<close> block. The request body is destructured first (a TypeError when it
  is nullish); \<^verbatim>\<open>systemMessage\<close> is read and not used again.
\<close>

definition chat_try :: "environment \<Rightarrow> jsval \<Rightarrow> http_response io" where
  "chat_try env reqbody =
     io_bind (io_lift (get_prop reqbody (js ''message''))) (\<lambda>message.
     io_bind (io_lift (get_prop reqbody (js ''systemMessage''))) (\<lambda>systemMessage.
     if \<not> truthy message then
       io_return (res_json 400 [(js ''error'', JStr (js ''Message is required''))])
     else io_bind (chat_provider env message) (chat_respond env)))"

text \<open>\<^verbatim>\<open>error.response?.status\<close>: only a rejected request that got an answer has one.\<close>

fun response_status :: "js_error \<Rightarrow> nat option" where
  "response_status (AxiosError st) = st"
| "response_status e = None"

definition error_text :: "nat option \<Rightarrow> jsstring" where
  "error_text st =
     (if st = Some 400 then
        js ''I had trouble understanding your request. Could you please rephrase it?''
      else if st = Some 401 then
        js ''There seems to be an authentication issue with the AI service. Please try again.''
      else if st = Some 429 then
        js ''I'm receiving a lot of requests right now. Please wait a moment and try again.''
      else
        js ''I'm experiencing some technical difficulties. Please try again in a moment.'')"

text \<open>The handler's \<^verbatim>\<open>catch\<close>: all four branches answer with status 200 and no audio.\<close>

definition chat_catch :: "js_error \<Rightarrow> http_response" where
  "chat_catch error =
     res_json 200
       [(js ''response'', JStr (error_text (response_status error))),
        (js ''audioFileName'', JNull)]"

definition chat :: "environment \<Rightarrow> jsval \<Rightarrow> world \<Rightarrow> http_response \<times> world" where
  "chat env reqbody w =
     (case chat_try env reqbody w of
        (Inl error, w') \<Rightarrow> (chat_catch error, w')
      | (Inr res, w') \<Rightarrow> (res, w'))"

subsection \<open>The audio endpoints and the cleanup\<close>





subsection \<open>The process\<close>




text \<open>
  At start-up both module variables are fresh; the directory and the files found on disk
  are whatever an earlier run left.
\<close>

definition startup :: "bool \<Rightarrow> (jsstring \<rightharpoonup> file_content) \<Rightarrow> world" where
  "startup dir files =
     \<lparr>ASSISTANT_ID = JNull, audioFiles = Map.empty, audio_dir = dir, disk = files,
      sent = [], tick = 0\<rparr>"



section \<open>Notions used in the properties\<close>

text \<open>The requests a computation sends, started in a given state.\<close>

definition outgoing :: "(world \<Rightarrow> 'a \<times> world) \<Rightarrow> world \<Rightarrow> request list" where
  "outgoing m w = drop (length (sent w)) (sent (snd (m w)))"

text \<open>
  A computation that leaves a component of the state as it was, and one that only adds
  to the requests sent.
\<close>

definition keeps :: "(world \<Rightarrow> 'b) \<Rightarrow> (world \<Rightarrow> 'a \<times> world) \<Rightarrow> bool" where
  "keeps part m \<longleftrightarrow> (\<forall>w. part (snd (m w)) = part w)"


fun is_creation :: "request \<Rightarrow> bool" where
  "is_creation (Post url payload hs) = (url = assistant_url)"
| "is_creation (Get url hs) = False"

text \<open>Two calls of \<^verbatim>\<open>getOrCreateAssistant\<close>, one after the other.\<close>

definition ensure_twice ::
  "environment \<Rightarrow> world \<Rightarrow> ((js_error + jsval) \<times> (js_error + jsval)) \<times> world" where
  "ensure_twice env w =
     (case getOrCreateAssistant env w of
        (r1, w1) \<Rightarrow> (case getOrCreateAssistant env w1 of (r2, w2) \<Rightarrow> ((r1, r2), w2)))"

text \<open>Two calls of \<^verbatim>\<open>generateAudio\<close>, one after the other.\<close>

definition synthesize_twice ::
  "environment \<Rightarrow> jsval \<Rightarrow> jsval \<Rightarrow> world \<Rightarrow>
     ((js_error + jsstring) \<times> (js_error + jsstring)) \<times> world" where
  "synthesize_twice env text1 text2 w =
     (case generateAudio env text1 w of
        (r1, w1) \<Rightarrow> (case generateAudio env text2 w1 of (r2, w2) \<Rightarrow> ((r1, r2), w2)))"

text \<open>
  What the handler reads from the provider's reply to a chat turn:
  \<^verbatim>\<open>output?.[0]?.content\<close>, and whether a value is a string.
\<close>

fun is_text :: "jsval \<Rightarrow> bool" where
  "is_text (JStr s) = True"
| "is_text v = False"


text \<open>The three kinds of file name that \<^verbatim>\<open>generateAudio\<close> builds from a clock reading.\<close>

definition response_name :: "nat \<Rightarrow> jsstring" where
  "response_name t = js ''response_'' @ digits t @ js ''.mp3''"

definition text_name :: "nat \<Rightarrow> jsstring" where
  "text_name t = js ''response_text_'' @ digits t @ js ''.txt''"

definition fallback_name :: "nat \<Rightarrow> jsstring" where
  "fallback_name t = js ''fallback_'' @ digits t @ js ''.mp3''"

text \<open>
  The audio directory is there when \<^verbatim>\<open>generateAudio\<close> needs it: it exists, or its
  creation (the second interaction of the call) goes through.
\<close>

definition dir_available :: "environment \<Rightarrow> world \<Rightarrow> bool" where
  "dir_available env w \<longleftrightarrow> audio_dir w \<or> mkdir_ok env (Suc (tick w))"

text \<open>
  The query parameter of the TTS request for a text: the encoding of its first 200 code
  units; none when the text is not a string or the encoding throws.
\<close>

definition tts_query :: "jsval \<Rightarrow> jsstring option" where
  "tts_query text =
     (case text of
        JStr s \<Rightarrow> (case encodeURIComponent (take 200 s) of Inl e \<Rightarrow> None | Inr q \<Rightarrow> Some q)
      | _ \<Rightarrow> None)"

subsection \<open>Sample surroundings\<close>

text \<open>
  A provider that creates assistant \<^verbatim>\<open>a1\<close> and answers every chat turn with
  \<^verbatim>\<open>{id:"c1", output:[{content:"Hi there!"}], cost:0.002}\<close>.
\<close>

definition sample_chat_reply :: jsval where
  "sample_chat_reply =
     JObj [(js ''id'', JStr (js ''c1'')),
           (js ''output'', JArr [JObj [(js ''content'', JStr (js ''Hi there!''))]]),
           (js ''cost'', JNum (2 / 1000))]"

definition provider_up :: "nat \<Rightarrow> jsstring \<Rightarrow> jsval \<Rightarrow> jsval outcome" where
  "provider_up n url payload =
     (if url = assistant_url then Reply 201 (JObj [(js ''id'', JStr (js ''a1''))])
      else Reply 200 sample_chat_reply)"

text \<open>Everything works: the TTS endpoint answers with three bytes, the disk accepts writes.\<close>

definition env_up :: environment where
  "env_up =
     \<lparr>env_VAPI_API_KEY = None, clock = (\<lambda>n. 1000 + n), locale_time = (\<lambda>n. js ''1/1/2025''),
      post_outcome = provider_up, get_outcome = (\<lambda>n url. Reply 200 [1, 2, 3]),
      mkdir_ok = (\<lambda>n. True), write_ok = (\<lambda>n name. True)\<rparr>"

text \<open>The provider works, the TTS endpoint does not answer and no write goes through.\<close>

definition env_no_audio :: environment where
  "env_no_audio =
     \<lparr>env_VAPI_API_KEY = None, clock = (\<lambda>n. 1000 + n), locale_time = (\<lambda>n. js ''1/1/2025''),
      post_outcome = provider_up, get_outcome = (\<lambda>n url. NoReply),
      mkdir_ok = (\<lambda>n. True), write_ok = (\<lambda>n name. False)\<rparr>"

text \<open>The provider rejects the first request with status 500 and works from then on.\<close>

definition env_flaky :: environment where
  "env_flaky =
     \<lparr>env_VAPI_API_KEY = None, clock = (\<lambda>n. 1000 + n), locale_time = (\<lambda>n. js ''1/1/2025''),
      post_outcome = (\<lambda>n url payload. if n = 0 then Reply 500 JNull else provider_up n url payload),
      get_outcome = (\<lambda>n url. Reply 200 [1, 2, 3]),
      mkdir_ok = (\<lambda>n. True), write_ok = (\<lambda>n name. True)\<rparr>"

text \<open>
  Everything works and the clock reads the same millisecond throughout. The TTS endpoint
  answers the text \<^verbatim>\<open>Hi\<close> with the byte 1 and every other text with the byte 2.
\<close>

definition env_same_ms :: environment where
  "env_same_ms =
     \<lparr>env_VAPI_API_KEY = None, clock = (\<lambda>n. 1000), locale_time = (\<lambda>n. js ''1/1/2025''),
      post_outcome = provider_up,
      get_outcome = (\<lambda>n url. if url = ttsUrl (js ''Hi'') then Reply 200 [1] else Reply 200 [2]),
      mkdir_ok = (\<lambda>n. True), write_ok = (\<lambda>n name. True)\<rparr>"

text \<open>Everything works except the TTS endpoint, which does not answer.\<close>

definition env_tts_down :: environment where
  "env_tts_down =
     \<lparr>env_VAPI_API_KEY = None, clock = (\<lambda>n. 1000 + n), locale_time = (\<lambda>n. js ''1/1/2025''),
      post_outcome = provider_up, get_outcome = (\<lambda>n url. NoReply),
      mkdir_ok = (\<lambda>n. True), write_ok = (\<lambda>n name. True)\<rparr>"

text \<open>The TTS endpoint does not answer and only \<^verbatim>\<open>fallback_\<close> files can be written.\<close>

definition env_fallback_only :: environment where
  "env_fallback_only =
     \<lparr>env_VAPI_API_KEY = None, clock = (\<lambda>n. 1000 + n), locale_time = (\<lambda>n. js ''1/1/2025''),
      post_outcome = provider_up, get_outcome = (\<lambda>n url. NoReply),
      mkdir_ok = (\<lambda>n. True), write_ok = (\<lambda>n name. take 9 name = js ''fallback_'')\<rparr>"




definition hello_body :: jsval where
  "hello_body = JObj [(js ''message'', JStr (js ''Hello''))]"

text \<open>The process right after start-up, with the audio directory in place and empty.\<close>

definition cold_start :: world where
  "cold_start = startup True Map.empty"

text \<open>The same with assistant \<^verbatim>\<open>a1\<close> already cached.\<close>

definition warm_start :: world where
  "warm_start = cold_start\<lparr>ASSISTANT_ID := JStr (js ''a1'')\<rparr>"

section \<open>Basic facts\<close>

lemmas io_defs = io_return_def io_throw_def io_lift_def io_bind_def try_catch_def

lemmas fs_defs =
  date_now_def date_toLocaleString_def existsSync_audio_dir_def mkdirSync_audio_dir_def
  writeFileSync_def

lemma get_prop_sibling:
  "get_prop v k = Inr m \<Longrightarrow> \<exists>m'. get_prop v k' = Inr m'"
  by (cases v) (auto split: option.splits)

lemma get_prop_opt: "get_prop v k = Inr x \<Longrightarrow> opt_prop v k = x"
  by (simp add: opt_prop_def)

lemma settle_Inr:
  "settle oc = Inr d \<Longrightarrow> \<exists>st. oc = Reply st d \<and> 200 \<le> st \<and> st < 300"
  by (cases oc) (auto split: if_splits)

lemma url_neq: "chat_url \<noteq> assistant_url"
  by (simp add: chat_url_def assistant_url_def js_def)


lemma bind_Inr: "m w = (Inr a, w1) \<Longrightarrow> io_bind m f w = f a w1"
  by (simp add: io_bind_def)

lemma bind_Inl: "m w = (Inl e, w1) \<Longrightarrow> io_bind m f w = (Inl e, w1)"
  by (simp add: io_bind_def)


subsection \<open>Components of the state that a computation leaves alone\<close>

lemma keeps_bind: "keeps part m \<Longrightarrow> (\<And>a. keeps part (f a)) \<Longrightarrow> keeps part (io_bind m f)"
  by (auto simp: keeps_def io_bind_def split: prod.splits sum.splits) (metis snd_conv)+

lemma keeps_try: "keeps part m \<Longrightarrow> (\<And>e. keeps part (h e)) \<Longrightarrow> keeps part (try_catch m h)"
  by (auto simp: keeps_def try_catch_def split: prod.splits sum.splits) (metis snd_conv)+


lemma keeps_pure:
  "keeps part (io_return a)" "keeps part (io_throw e)" "keeps part (io_lift r)"
  "keeps part existsSync_audio_dir"
  by (simp_all add: keeps_def io_defs fs_defs)

lemma keeps_sent:
  "keeps sent (date_now env)" "keeps sent (date_toLocaleString env)"
  "keeps sent (mkdirSync_audio_dir env)" "keeps sent (writeFileSync env name c)"
  by (simp_all add: keeps_def fs_defs)

lemma keeps_ASSISTANT_ID:
  "keeps ASSISTANT_ID (date_now env)" "keeps ASSISTANT_ID (date_toLocaleString env)"
  "keeps ASSISTANT_ID (mkdirSync_audio_dir env)" "keeps ASSISTANT_ID (writeFileSync env name c)"
  "keeps ASSISTANT_ID (axios_post env url p hs)" "keeps ASSISTANT_ID (axios_get env url hs)"
  by (simp_all add: keeps_def fs_defs axios_post_def axios_get_def)

lemmas keeps_basic = keeps_pure keeps_sent keeps_ASSISTANT_ID

lemma silent_demo: "keeps sent (generateAudio_demo env text name)"
  unfolding generateAudio_demo_def by (intro keeps_bind keeps_basic)

lemma silent_fallback: "keeps sent (generateAudio_fallback env)"
  unfolding generateAudio_fallback_def by (intro keeps_try keeps_bind keeps_basic)



subsection \<open>Requests are only ever added\<close>











subsection \<open>The chat handler, step by step\<close>

lemma assistantMessage_text:
  "is_text (opt_prop (opt_index0 out) (js ''content'')) \<or>
     \<not> truthy (opt_prop (opt_index0 out) (js ''content''))
   \<Longrightarrow> \<exists>s. assistantMessage out = JStr s \<and> s \<noteq> []"
  by (cases "opt_prop (opt_index0 out) (js ''content'')")
     (auto simp: assistantMessage_def js_or_def no_response_text_def js_def)


lemma chat_try_truthy:
  assumes "get_prop reqbody (js ''message'') = Inr m" and "truthy m"
  shows "chat_try env reqbody = io_bind (chat_provider env m) (chat_respond env)"
proof -
  obtain m' where "get_prop reqbody (js ''systemMessage'') = Inr m'"
    using get_prop_sibling [OF assms(1)] by blast
  with assms show ?thesis
    by (simp add: chat_try_def io_lift_def io_bind_def fun_eq_iff)
qed



lemma chat_respond_eval:
  assumes "get_prop vr (js ''output'') = Inr out"
  shows "chat_respond env vr w =
           (Inr (res_json 200
              [(js ''response'', assistantMessage out),
               (js ''audioFileName'',
                  (case fst (generateAudio env (assistantMessage out) w) of
                     Inl e \<Rightarrow> JNull
                   | Inr f \<Rightarrow> JStr f)),
               (js ''chatId'', opt_prop vr (js ''id'')),
               (js ''cost'', js_or (opt_prop vr (js ''cost'')) (JNum 0))]),
            snd (generateAudio env (assistantMessage out) w))"
proof -
  obtain i c where ic: "get_prop vr (js ''id'') = Inr i" "get_prop vr (js ''cost'') = Inr c"
    using get_prop_sibling [OF assms] by blast
  obtain r w' where g: "generateAudio env (assistantMessage out) w = (r, w')"
    by (cases "generateAudio env (assistantMessage out) w")
  show ?thesis
    by (cases r) (simp_all add: chat_respond_def io_defs assms ic g get_prop_opt)
qed






subsection \<open>The sample surroundings\<close>

lemma get_hello: "get_prop hello_body (js ''message'') = Inr (JStr (js ''Hello''))"
  by (simp add: hello_body_def)

lemma hello_truthy: "truthy (JStr (js ''Hello''))"
  by (simp add: js_def)

lemma created_env_up:
  "fst (getOrCreateAssistant env_up cold_start) = Inr (JStr (js ''a1''))"
  by (simp add: getOrCreateAssistant_def cold_start_def startup_def axios_post_def env_up_def
      provider_up_def set_ASSISTANT_ID_def io_defs)

section \<open>Requests sent by the audio generation\<close>


lemma substring_take: "substring s 0 n = take n s"
  by (simp add: substring_def Let_def min_def)

lemma escape_length: "length (escape cp) \<le> 12"
  by (simp add: escape_def utf8_def percent_def)

lemma escape_length_bmp: "cp < 0x10000 \<Longrightarrow> length (escape cp) \<le> 9"
  by (simp add: escape_def utf8_def percent_def)

lemma unat_16_bound: "unat (c :: 16 word) < 0x10000"
  using unsigned_less [of c, where 'a = nat] by simp

lemma encode_length:
  "encodeURIComponent s = Inr q \<Longrightarrow> length q \<le> 9 * length s"
proof (induction s arbitrary: q rule: encodeURIComponent.induct)
  case 1
  then show ?case by simp
next
  case (2 c cs)
  show ?case
  proof (cases "unreserved c")
    case True
    with "2.prems" obtain r where "encodeURIComponent cs = Inr r" "q = c # r"
      by (auto split: sum.splits)
    with "2.IH"(1) [OF True] show ?thesis by fastforce
  next
    case False
    show ?thesis
    proof (cases "\<not> is_lead c \<and> \<not> is_trail c")
      case True
      with False "2.prems" obtain r where r: "encodeURIComponent cs = Inr r" "q = escape (unat c) @ r"
        by (auto split: sum.splits)
      from "2.IH"(2) [OF False True r(1)] escape_length_bmp [OF unat_16_bound, of c] r(2)
      show ?thesis by simp
    next
      case nb: False
      with False "2.prems" obtain d ds r where
        cs: "cs = d # ds" and nt: "\<not> is_trail c" and d: "is_trail d"
        and r: "encodeURIComponent ds = Inr r" "q = escape (pair_code_point c d) @ r"
        by (auto split: sum.splits list.splits if_splits)
      from "2.IH"(3) [OF False nb nt cs d r(1)] escape_length [of "pair_code_point c d"] r(2) cs
      show ?thesis by simp
    qed
  qed
qed


lemma try_catch_sent:
  "(\<And>e. keeps sent (h e)) \<Longrightarrow> sent (snd (try_catch m h w)) = sent (snd (m w))"
  by (cases "m w") (auto simp: try_catch_def keeps_def split: sum.splits)

lemma primary_sent:
  "sent (snd (generateAudio_primary env (JStr s) name w)) =
     sent w @ (case encodeURIComponent (take 200 s) of
                 Inl e \<Rightarrow> []
               | Inr q \<Rightarrow> [Get (ttsUrl q) tts_headers])"
  by (simp add: generateAudio_primary_def io_defs writeFileSync_def axios_get_def substring_take
      split: sum.splits)

lemma try_sent:
  "sent (snd (generateAudio_try env (JStr s) w)) =
     sent w @ (if audio_dir w \<or> mkdir_ok env (Suc (tick w)) then
        (case encodeURIComponent (take 200 s) of
           Inl e \<Rightarrow> []
         | Inr q \<Rightarrow> [Get (ttsUrl q) tts_headers])
      else [])"
  by (simp add: generateAudio_try_def io_bind_def io_return_def date_now_def
      existsSync_audio_dir_def mkdirSync_audio_dir_def try_catch_sent silent_demo primary_sent)

lemma generateAudio_outgoing:
  "outgoing (generateAudio env (JStr s)) w =
     (if audio_dir w \<or> mkdir_ok env (Suc (tick w)) then
        (case encodeURIComponent (take 200 s) of
           Inl e \<Rightarrow> []
         | Inr q \<Rightarrow> [Get (ttsUrl q) tts_headers])
      else [])"
  by (simp add: outgoing_def generateAudio_def try_catch_sent silent_fallback try_sent)


lemma encode_unreserved:
  "unreserved c \<Longrightarrow> encodeURIComponent (replicate n c) = Inr (replicate n c)"
  by (induction n) simp_all

section \<open>Validation of the message\<close>

text \<open>
  Claim C8. A request body without a \<^verbatim>\<open>message\<close> member, or with an empty string (or any
  other falsy value) as message, is answered with status 400 and
  \<^verbatim>\<open>{error: "Message is required"}\<close>. The state after the request is the state before
  it: nothing was sent to the provider, no assistant was created or cached and no audio
  file was written.
\<close>

theorem chat_requires_message:
  assumes "get_prop reqbody (js ''message'') = Inr m" and "\<not> truthy m"
  shows "chat env reqbody w =
           (\<lparr>status = 400, body = Json (JObj [(js ''error'', JStr (js ''Message is required''))])\<rparr>, w)"
proof -
  obtain m' where "get_prop reqbody (js ''systemMessage'') = Inr m'"
    using get_prop_sibling [OF assms(1)] by blast
  with assms show ?thesis
    by (simp add: chat_def chat_try_def io_defs res_json_def)
qed

theorem chat_requires_message_witness:
  "chat env_up (JObj []) cold_start =
     (\<lparr>status = 400, body = Json (JObj [(js ''error'', JStr (js ''Message is required''))])\<rparr>,
      cold_start) \<and>
   chat env_up (JObj [(js ''message'', JStr [])]) cold_start =
     (\<lparr>status = 400, body = Json (JObj [(js ''error'', JStr (js ''Message is required''))])\<rparr>,
      cold_start)"
proof -
  have absent: "get_prop (JObj []) (js ''message'') = Inr JUndefined" and "\<not> truthy JUndefined"
    by simp_all
  moreover
  have empty: "get_prop (JObj [(js ''message'', JStr [])]) (js ''message'') = Inr (JStr [])"
    and "\<not> truthy (JStr [])"
    by simp_all
  ultimately show ?thesis
    using chat_requires_message [of "JObj []" JUndefined env_up cold_start]
      chat_requires_message [of "JObj [(js ''message'', JStr [])]" "JStr []" env_up
        cold_start]
    by blast
qed



section \<open>The system message\<close>

text \<open>
  Claim C9. The \<^verbatim>\<open>systemMessage\<close> member of a chat request has no influence: two request
  bodies that agree on every member other than \<^verbatim>\<open>systemMessage\<close> get the same response
  and leave the same state, which includes the same requests sent to the provider.
\<close>

theorem systemMessage_ignored:
  assumes "\<forall>k. k \<noteq> js ''systemMessage'' \<longrightarrow> map_of f1 k = map_of f2 k"
  shows "chat env (JObj f1) w = chat env (JObj f2) w"
proof -
  have "js ''message'' \<noteq> js ''systemMessage''"
    by (simp add: js_def)
  with assms have "map_of f1 (js ''message'') = map_of f2 (js ''message'')"
    by blast
  then show ?thesis
    by (simp add: chat_def chat_try_def io_defs split: option.splits)
qed

theorem systemMessage_ignored_witness:
  "chat env_up (JObj [(js ''message'', JStr (js ''Hello'')),
                      (js ''systemMessage'', JStr (js ''Answer in French''))])
     cold_start =
   chat env_up (JObj [(js ''message'', JStr (js ''Hello''))]) cold_start"
proof -
  have "\<forall>k. k \<noteq> js ''systemMessage'' \<longrightarrow>
      map_of [(js ''message'', JStr (js ''Hello'')),
              (js ''systemMessage'', JStr (js ''Answer in French''))] k =
      map_of [(js ''message'', JStr (js ''Hello''))] k"
    by simp
  from systemMessage_ignored [OF this] show ?thesis .
qed

section \<open>The text sent to the TTS endpoint\<close>

text \<open>
  Claim C4. For a text of more than 200 code units, the only request \<^verbatim>\<open>generateAudio\<close>
  can send is the GET whose query parameter is the URI encoding of the first 200 code
  units (none at all when the directory cannot be created or the encoding throws). The
  encoded parameter is at most 1800 characters long, and any other text with the same
  first 200 code units leads to the same requests: nothing beyond position 200 reaches
  the URL.
\<close>

theorem tts_query_truncated:
  assumes "200 < length s"
  shows "length (take 200 s) = 200 \<and>
         outgoing (generateAudio env (JStr s)) w =
           (if audio_dir w \<or> mkdir_ok env (Suc (tick w)) then
              (case encodeURIComponent (take 200 s) of
                 Inl e \<Rightarrow> []
               | Inr q \<Rightarrow> [Get (ttsUrl q) tts_headers])
            else []) \<and>
         (\<forall>q. encodeURIComponent (take 200 s) = Inr q \<longrightarrow> length q \<le> 1800) \<and>
         (\<forall>s'. take 200 s' = take 200 s \<longrightarrow>
            outgoing (generateAudio env (JStr s')) w = outgoing (generateAudio env (JStr s)) w)"
proof -
  from assms have len: "length (take 200 s) = 200" by simp
  have "length q \<le> 1800" if "encodeURIComponent (take 200 s) = Inr q" for q
    using encode_length [OF that] len by simp
  moreover have "outgoing (generateAudio env (JStr s')) w = outgoing (generateAudio env (JStr s)) w"
    if "take 200 s' = take 200 s" for s'
    using that by (simp only: generateAudio_outgoing)
  ultimately show ?thesis
    using len generateAudio_outgoing [of env s w] by blast
qed

theorem tts_query_truncated_witness:
  "200 < length (replicate 201 (0x61 :: 16 word)) \<and>
   outgoing (generateAudio env_up (JStr (replicate 201 0x61))) cold_start =
     [Get (ttsUrl (replicate 200 0x61)) tts_headers]"
proof -
  have long: "200 < length (replicate 201 (0x61 :: 16 word))" by simp
  have enc: "encodeURIComponent (take 200 (replicate 201 (0x61 :: 16 word))) = Inr (replicate 200 0x61)"
    by (simp add: encode_unreserved unreserved_def)
  from tts_query_truncated [OF long, of env_up cold_start] long enc
  show ?thesis by (simp add: cold_start_def startup_def)
qed

section \<open>The assistant is created once\<close>

lemma cached_returns:
  "truthy (ASSISTANT_ID w) \<Longrightarrow> getOrCreateAssistant env w = (Inr (ASSISTANT_ID w), w)"
  by (simp add: getOrCreateAssistant_def)

lemma created_is_cached:
  "getOrCreateAssistant env w = (Inr aid, w1) \<Longrightarrow> ASSISTANT_ID w1 = aid"
  by (auto simp: getOrCreateAssistant_def axios_post_def set_ASSISTANT_ID_def io_defs
      split: if_splits sum.splits)


lemma ensure_outgoing:
  "outgoing (getOrCreateAssistant env) w =
     (if truthy (ASSISTANT_ID w) then []
      else [Post assistant_url assistant_config (vapi_headers env)])"
  by (simp add: outgoing_def getOrCreateAssistant_def axios_post_def set_ASSISTANT_ID_def io_defs
      split: sum.splits)

text \<open>
  Claim C5, as the code has it. When the first of two calls in a row returns a non-empty
  assistant id, the second call returns the same id and leaves the state untouched,
  whatever the surroundings would have answered, and the two calls together have issued
  at most one creation request.
\<close>

theorem assistant_reused_once_cached:
  assumes "fst (getOrCreateAssistant env w) = Inr aid" and "truthy aid"
  shows "ensure_twice env w = ((Inr aid, Inr aid), snd (getOrCreateAssistant env w)) \<and>
         getOrCreateAssistant env' (snd (getOrCreateAssistant env w)) =
           (Inr aid, snd (getOrCreateAssistant env w)) \<and>
         length (filter is_creation (outgoing (ensure_twice env) w)) \<le> 1"
proof -
  obtain w1 where g: "getOrCreateAssistant env w = (Inr aid, w1)"
    using assms(1) by (cases "getOrCreateAssistant env w") simp
  from created_is_cached [OF g] assms(2)
  have c: "truthy (ASSISTANT_ID w1)" "ASSISTANT_ID w1 = aid"
    by simp_all
  have again: "getOrCreateAssistant e w1 = (Inr aid, w1)" for e
    using cached_returns [OF c(1)] c(2) by simp
  have tw: "ensure_twice env w = ((Inr aid, Inr aid), w1)"
    by (simp add: ensure_twice_def g again)
  have "outgoing (ensure_twice env) w = outgoing (getOrCreateAssistant env) w"
    by (simp add: outgoing_def tw g)
  then have "length (filter is_creation (outgoing (ensure_twice env) w)) \<le> 1"
    by (simp add: ensure_outgoing)
  with tw g again show ?thesis by simp
qed

theorem assistant_reused_once_cached_witness:
  "ensure_twice env_up cold_start =
     ((Inr (JStr (js ''a1'')), Inr (JStr (js ''a1''))),
      snd (getOrCreateAssistant env_up cold_start)) \<and>
   length (filter is_creation (outgoing (ensure_twice env_up) cold_start)) \<le> 1"
proof -
  have "truthy (JStr (js ''a1''))" by (simp add: js_def)
  from assistant_reused_once_cached [OF created_env_up this] show ?thesis by blast
qed

text \<open>
  Claim C5 as stated fails: when the provider rejects the first creation, nothing is
  cached and the second call issues a creation request of its own, two in all.
\<close>

theorem second_call_creates_again_after_failure:
  "\<not> length (filter is_creation (outgoing (ensure_twice env_flaky) cold_start)) \<le> 1"
  by (simp add: outgoing_def ensure_twice_def getOrCreateAssistant_def axios_post_def
      set_ASSISTANT_ID_def io_defs cold_start_def startup_def env_flaky_def provider_up_def)

text \<open>In general a call that throws leaves the cache as it was: empty.\<close>

lemma failed_call_caches_nothing:
  "fst (getOrCreateAssistant env w) = Inl e \<Longrightarrow>
     ASSISTANT_ID (snd (getOrCreateAssistant env w)) = ASSISTANT_ID w \<and> \<not> truthy (ASSISTANT_ID w)"
  by (auto simp: getOrCreateAssistant_def axios_post_def set_ASSISTANT_ID_def io_defs
      split: if_splits sum.splits)

section \<open>What the health endpoint reports\<close>




lemma truthy_not_nullish: "truthy v \<Longrightarrow> \<not> nullish v"
  by (cases v) simp_all






lemma sample_output:
  "get_prop sample_chat_reply (js ''output'') =
     Inr (JArr [JObj [(js ''content'', JStr (js ''Hi there!''))]])"
  by (simp add: sample_chat_reply_def js_def)


section \<open>File names of the audio\<close>

lemma primary_up:
  assumes "audio_dir w" and "encodeURIComponent (take 200 s) = Inr q"
    and "settle (get_outcome env (tick w) (ttsUrl q)) = Inr d"
    and "write_ok env (Suc (tick w)) name"
  shows "generateAudio_primary env (JStr s) name w =
           (Inr name, w\<lparr>sent := sent w @ [Get (ttsUrl q) tts_headers],
                        tick := Suc (Suc (tick w)),
                        disk := (disk w)(name \<mapsto> Audio d)\<rparr>)"
  using assms
  by (simp add: generateAudio_primary_def io_defs writeFileSync_def axios_get_def substring_take)

lemma generateAudio_up:
  assumes "audio_dir w" and "encodeURIComponent (take 200 s) = Inr q"
    and "settle (get_outcome env (Suc (tick w)) (ttsUrl q)) = Inr d"
    and "write_ok env (Suc (Suc (tick w))) (js ''response_'' @ digits (clock env (tick w)) @ js ''.mp3'')"
  shows "generateAudio env (JStr s) w =
           (Inr (js ''response_'' @ digits (clock env (tick w)) @ js ''.mp3''),
            w\<lparr>sent := sent w @ [Get (ttsUrl q) tts_headers],
              tick := Suc (Suc (Suc (tick w))),
              disk := (disk w)(js ''response_'' @ digits (clock env (tick w)) @ js ''.mp3'' \<mapsto> Audio d)\<rparr>)"
proof -
  let ?w1 = "w\<lparr>tick := Suc (tick w)\<rparr>"
  let ?name = "js ''response_'' @ digits (clock env (tick w)) @ js ''.mp3''"
  have p: "generateAudio_primary env (JStr s) ?name ?w1 =
           (Inr ?name, ?w1\<lparr>sent := sent ?w1 @ [Get (ttsUrl q) tts_headers],
                        tick := Suc (Suc (tick ?w1)),
                        disk := (disk ?w1)(?name \<mapsto> Audio d)\<rparr>)"
    by (rule primary_up) (use assms in simp_all)
  have "generateAudio_try env (JStr s) w =
           (Inr ?name, ?w1\<lparr>sent := sent ?w1 @ [Get (ttsUrl q) tts_headers],
                        tick := Suc (Suc (tick ?w1)),
                        disk := (disk ?w1)(?name \<mapsto> Audio d)\<rparr>)"
    using assms(1)
    by (simp add: generateAudio_try_def io_bind_def io_return_def date_now_def
        existsSync_audio_dir_def try_catch_def p)
  then show ?thesis
    by (simp add: generateAudio_def try_catch_def)
qed

lemma enc_hi: "encodeURIComponent (take 200 (js ''Hi'')) = Inr (js ''Hi'')"
  by (simp add: js_def unreserved_def)

lemma enc_bye: "encodeURIComponent (take 200 (js ''Bye'')) = Inr (js ''Bye'')"
  by (simp add: js_def unreserved_def)

lemma digits_1000: "digits 1000 = js ''1000''"
  by (simp add: digits.simps js_def)

lemma name_1000: "js ''response_'' @ digits 1000 @ js ''.mp3'' = js ''response_1000.mp3''"
  by (simp add: digits_1000 js_def)

lemma same_ms_call:
  assumes "audio_dir w" and "encodeURIComponent (take 200 s) = Inr q"
  shows "generateAudio env_same_ms (JStr s) w =
           (Inr (js ''response_1000.mp3''),
            w\<lparr>sent := sent w @ [Get (ttsUrl q) tts_headers],
              tick := Suc (Suc (Suc (tick w))),
              disk := (disk w)(js ''response_1000.mp3'' \<mapsto>
                Audio (if ttsUrl q = ttsUrl (js ''Hi'') then [1] else [2]))\<rparr>)"
proof -
  have "settle (get_outcome env_same_ms (Suc (tick w)) (ttsUrl q)) =
      Inr (if ttsUrl q = ttsUrl (js ''Hi'') then [1] else [2])"
    and "write_ok env_same_ms (Suc (Suc (tick w)))
           (js ''response_'' @ digits (clock env_same_ms (tick w)) @ js ''.mp3'')"
    by (simp_all add: env_same_ms_def)
  from generateAudio_up [OF assms this]
  have "generateAudio env_same_ms (JStr s) w =
           (Inr (js ''response_'' @ digits (clock env_same_ms (tick w)) @ js ''.mp3''),
            w\<lparr>sent := sent w @ [Get (ttsUrl q) tts_headers],
              tick := Suc (Suc (Suc (tick w))),
              disk := (disk w)(js ''response_'' @ digits (clock env_same_ms (tick w)) @ js ''.mp3'' \<mapsto>
                Audio (if ttsUrl q = ttsUrl (js ''Hi'') then [1] else [2]))\<rparr>)" .
  moreover have "clock env_same_ms (tick w) = 1000"
    by (simp add: env_same_ms_def)
  ultimately show ?thesis
    by (simp only: name_1000)
qed

lemma other_url: "ttsUrl (js ''Bye'') \<noteq> ttsUrl (js ''Hi'')"
  by (simp add: ttsUrl_def js_def)

text \<open>
  Claim C7 asks for a file name that is unique per call. The name is built from the
  clock reading alone, so two calls that read the same millisecond get the same name:
  in \<open>env_same_ms\<close> both calls succeed and both return \<^verbatim>\<open>response_1000.mp3\<close>, and the
  file that the first call returned for \<^verbatim>\<open>Hi\<close> ends up holding the audio of \<^verbatim>\<open>Bye\<close>.
\<close>

theorem same_millisecond_same_name:
  "fst (synthesize_twice env_same_ms (JStr (js ''Hi'')) (JStr (js ''Bye'')) cold_start) =
     (Inr (js ''response_1000.mp3''), Inr (js ''response_1000.mp3'')) \<and>
   disk (snd (synthesize_twice env_same_ms (JStr (js ''Hi'')) (JStr (js ''Bye'')) cold_start))
     (js ''response_1000.mp3'') = Some (Audio [2])"
proof -
  have "audio_dir cold_start" by (simp add: cold_start_def startup_def)
  note first = same_ms_call [OF this enc_hi]
  let ?w1 = "snd (generateAudio env_same_ms (JStr (js ''Hi'')) cold_start)"
  from first have "audio_dir ?w1"
    by (simp add: cold_start_def startup_def)
  note second = same_ms_call [OF this enc_bye]
  have "fst (generateAudio env_same_ms (JStr (js ''Hi'')) cold_start) = Inr (js ''response_1000.mp3'')"
    by (simp only: first fst_conv)
  moreover have "fst (generateAudio env_same_ms (JStr (js ''Bye'')) ?w1) = Inr (js ''response_1000.mp3'')"
    by (simp only: second fst_conv)
  moreover have "disk (snd (generateAudio env_same_ms (JStr (js ''Bye'')) ?w1))
      (js ''response_1000.mp3'') = Some (Audio [2])"
    by (simp add: second other_url)
  ultimately show ?thesis
    by (simp add: synthesize_twice_def case_prod_unfold)
qed

section \<open>The example exchange\<close>

lemma trim_hello: "trim (js ''Hello'') = js ''Hello''"
  by (simp add: trim_def js_def is_space_def)

lemma sample_message:
  "assistantMessage (JArr [JObj [(js ''content'', JStr (js ''Hi there!''))]]) =
     JStr (js ''Hi there!'')"
  by (simp add: assistantMessage_def opt_prop_def js_or_def js_def)

lemma sample_id: "opt_prop sample_chat_reply (js ''id'') = JStr (js ''c1'')"
  by (simp add: sample_chat_reply_def opt_prop_def js_def)

lemma sample_cost: "js_or (opt_prop sample_chat_reply (js ''cost'')) (JNum 0) = JNum (2 / 1000)"
  by (simp add: sample_chat_reply_def opt_prop_def js_or_def js_def)

lemma chat_returns: "fst (chat_try env reqbody w) = Inr res \<Longrightarrow> fst (chat env reqbody w) = res"
  by (cases "chat_try env reqbody w") (auto simp: chat_def)

lemma provider_cached:
  assumes "truthy (ASSISTANT_ID w)" and "call_trim m = Inr input"
    and "settle (post_outcome env (tick w) chat_url
           (JObj [(js ''assistantId'', ASSISTANT_ID w), (js ''input'', input)])) = Inr vr"
  shows "chat_provider env m w =
           (Inr vr, w\<lparr>sent := sent w @ [Post chat_url
                          (JObj [(js ''assistantId'', ASSISTANT_ID w), (js ''input'', input)])
                          (vapi_headers env)],
                      tick := Suc (tick w)\<rparr>)"
  using assms
  by (simp add: chat_provider_def getOrCreateAssistant_def io_bind_def io_lift_def axios_post_def)

text \<open>
  Claim C3. A request with the message \<^verbatim>\<open>Hello\<close>, the assistant being cached, a provider
  that answers the chat turn with status 200 and
  \<^verbatim>\<open>{id:"c1", output:[{content:"Hi there!"}], cost:0.002}\<close>, and an audio generation that
  returns the file name \<open>f\<close>: the answer has status 200 and the body
  \<^verbatim>\<open>{response:"Hi there!", audioFileName: f, chatId:"c1", cost:0.002}\<close>.
\<close>

theorem hello_exchange:
  assumes msg: "get_prop reqbody (js ''message'') = Inr (JStr (js ''Hello''))"
    and cached: "truthy (ASSISTANT_ID w)"
    and reply: "post_outcome env (tick w) chat_url
        (JObj [(js ''assistantId'', ASSISTANT_ID w), (js ''input'', JStr (js ''Hello''))]) =
        Reply 200 sample_chat_reply"
    and audio: "fst (generateAudio env (JStr (js ''Hi there!''))
        (snd (chat_provider env (JStr (js ''Hello'')) w))) = Inr f"
  shows "fst (chat env reqbody w) =
           \<lparr>status = 200,
            body = Json (JObj [(js ''response'', JStr (js ''Hi there!'')),
                               (js ''audioFileName'', JStr f),
                               (js ''chatId'', JStr (js ''c1'')),
                               (js ''cost'', JNum (2 / 1000))])\<rparr>"
proof -
  have "settle (post_outcome env (tick w) chat_url
      (JObj [(js ''assistantId'', ASSISTANT_ID w), (js ''input'', JStr (js ''Hello''))])) =
      Inr sample_chat_reply"
    by (simp add: reply)
  from provider_cached [OF cached _ this, of "JStr (js ''Hello'')" ]
  obtain w2 where prv: "chat_provider env (JStr (js ''Hello'')) w = (Inr sample_chat_reply, w2)"
    by (simp add: trim_hello)
  from audio prv have "fst (generateAudio env (JStr (js ''Hi there!'')) w2) = Inr f"
    by simp
  with chat_respond_eval [OF sample_output, of env w2]
  have "fst (chat_respond env sample_chat_reply w2) =
      Inr (res_json 200 [(js ''response'', JStr (js ''Hi there!'')),
                         (js ''audioFileName'', JStr f),
                         (js ''chatId'', JStr (js ''c1'')),
                         (js ''cost'', JNum (2 / 1000))])"
    by (simp add: sample_message sample_id sample_cost)
  moreover have "chat_try env reqbody w = chat_respond env sample_chat_reply w2"
    using chat_try_truthy [OF msg hello_truthy, of env]
      bind_Inr [of "chat_provider env (JStr (js ''Hello''))" w sample_chat_reply w2, OF prv]
    by simp
  ultimately show ?thesis
    by (simp add: chat_returns res_json_def)
qed

lemma enc_hi_there:
  "encodeURIComponent (take 200 (js ''Hi there!'')) = Inr (js ''Hi%20there!'')"
  by (simp add: js_def unreserved_def is_lead_def is_trail_def escape_def utf8_def percent_def
      hex_digit_def)

lemma name_1001: "js ''response_'' @ digits 1001 @ js ''.mp3'' = js ''response_1001.mp3''"
  by (simp add: digits.simps js_def)

theorem hello_exchange_witness:
  "fst (chat env_up hello_body warm_start) =
     \<lparr>status = 200,
      body = Json (JObj [(js ''response'', JStr (js ''Hi there!'')),
                         (js ''audioFileName'', JStr (js ''response_1001.mp3'')),
                         (js ''chatId'', JStr (js ''c1'')),
                         (js ''cost'', JNum (2 / 1000))])\<rparr>"
proof -
  have cached: "truthy (ASSISTANT_ID warm_start)"
    by (simp add: warm_start_def js_def)
  have reply: "post_outcome env_up (tick warm_start) chat_url
      (JObj [(js ''assistantId'', ASSISTANT_ID warm_start), (js ''input'', JStr (js ''Hello''))]) =
      Reply 200 sample_chat_reply"
    by (simp add: env_up_def provider_up_def url_neq)
  let ?w2 = "snd (chat_provider env_up (JStr (js ''Hello'')) warm_start)"
  have "chat_provider env_up (JStr (js ''Hello'')) warm_start =
      (Inr sample_chat_reply,
       warm_start\<lparr>sent := sent warm_start @ [Post chat_url
                      (JObj [(js ''assistantId'', ASSISTANT_ID warm_start),
                             (js ''input'', JStr (js ''Hello''))])
                      (vapi_headers env_up)],
                  tick := Suc (tick warm_start)\<rparr>)"
    by (rule provider_cached [OF cached]) (simp_all add: trim_hello reply)
  then have w2: "audio_dir ?w2" "tick ?w2 = Suc 0"
    by (simp_all add: warm_start_def cold_start_def startup_def)
  have "settle (get_outcome env_up (Suc (tick ?w2)) (ttsUrl (js ''Hi%20there!''))) = Inr [1, 2, 3]"
    and "write_ok env_up (Suc (Suc (tick ?w2)))
           (js ''response_'' @ digits (clock env_up (tick ?w2)) @ js ''.mp3'')"
    by (simp_all add: env_up_def)
  from generateAudio_up [OF w2(1) enc_hi_there this]
  have "fst (generateAudio env_up (JStr (js ''Hi there!'')) ?w2) =
      Inr (js ''response_'' @ digits (clock env_up (tick ?w2)) @ js ''.mp3'')"
    by simp
  moreover have "clock env_up (Suc 0) = 1001"
    by (simp add: env_up_def)
  then have "clock env_up (tick ?w2) = 1001"
    by (simp only: w2)
  ultimately have audio: "fst (generateAudio env_up (JStr (js ''Hi there!'')) ?w2) =
      Inr (js ''response_1001.mp3'')"
    by (simp add: name_1001)
  from hello_exchange [OF get_hello cached reply audio] show ?thesis .
qed

section \<open>The chat endpoint always answers\<close>











section \<open>What the health endpoint reports after a chat\<close>






section \<open>The three tiers of audio generation\<close>

lemma mp3_not_txt: "a @ js ''.mp3'' \<noteq> b @ js ''.txt''"
proof
  assume "a @ js ''.mp3'' = b @ js ''.txt''"
  then have "last (a @ js ''.mp3'') = last (b @ js ''.txt'')" by simp
  then show False by (simp add: js_def)
qed

lemma mp3_not_txt2: "p @ d @ js ''.mp3'' \<noteq> b @ c @ js ''.txt''"
  using mp3_not_txt [of "p @ d" "b @ c"] by simp

lemma response_not_text: "response_name t \<noteq> text_name t'"
  by (simp add: response_name_def text_name_def mp3_not_txt2)

lemma tts_query_Some:
  "tts_query text = Some q \<Longrightarrow> \<exists>s. text = JStr s \<and> encodeURIComponent (take 200 s) = Inr q"
  by (cases "text") (auto simp: tts_query_def split: sum.splits)

lemma tts_query_None:
  "tts_query text = None \<Longrightarrow>
     (\<exists>e. call_substring text 0 200 = Inl e) \<or>
     (\<exists>s e. text = JStr s \<and> encodeURIComponent (take 200 s) = Inl e)"
  by (cases "text") (auto simp: tts_query_def split: sum.splits)

subsection \<open>The directory\<close>

lemma keeps_audio_dir:
  "keeps audio_dir (date_now env)" "keeps audio_dir (date_toLocaleString env)"
  "keeps audio_dir (writeFileSync env name c)" "keeps audio_dir (axios_get env url hs)"
  by (simp_all add: keeps_def fs_defs axios_get_def)

lemma primary_keeps_dir: "keeps audio_dir (generateAudio_primary env text name)"
  unfolding generateAudio_primary_def by (intro keeps_bind keeps_pure keeps_audio_dir)

lemma demo_keeps_dir: "keeps audio_dir (generateAudio_demo env text name)"
  unfolding generateAudio_demo_def by (intro keeps_bind keeps_pure keeps_audio_dir)

lemma try_unfold:
  "generateAudio_try env text w =
     (if audio_dir w then
        try_catch (generateAudio_primary env text (response_name (clock env (tick w))))
          (\<lambda>apiError. generateAudio_demo env text (response_name (clock env (tick w))))
          (w\<lparr>tick := Suc (tick w)\<rparr>)
      else if mkdir_ok env (Suc (tick w)) then
        try_catch (generateAudio_primary env text (response_name (clock env (tick w))))
          (\<lambda>apiError. generateAudio_demo env text (response_name (clock env (tick w))))
          (w\<lparr>tick := Suc (tick w), audio_dir := True, tick := Suc (Suc (tick w))\<rparr>)
      else (Inl FsError, w\<lparr>tick := Suc (tick w), tick := Suc (Suc (tick w))\<rparr>))"
  by (simp add: generateAudio_try_def io_bind_def io_return_def date_now_def
      existsSync_audio_dir_def mkdirSync_audio_dir_def response_name_def)

lemma try_available:
  assumes "dir_available env w"
  shows "\<exists>w2. audio_dir w2 \<and> disk w2 = disk w \<and>
           generateAudio_try env text w =
             try_catch (generateAudio_primary env text (response_name (clock env (tick w))))
               (\<lambda>apiError. generateAudio_demo env text (response_name (clock env (tick w)))) w2"
proof (cases "audio_dir w")
  case True
  then show ?thesis
    by (intro exI [of _ "w\<lparr>tick := Suc (tick w)\<rparr>"]) (simp add: try_unfold)
next
  case False
  with assms have "mkdir_ok env (Suc (tick w))" by (simp add: dir_available_def)
  with False show ?thesis
    by (intro exI [of _ "w\<lparr>tick := Suc (tick w), audio_dir := True, tick := Suc (Suc (tick w))\<rparr>"])
       (simp add: try_unfold)
qed

lemma try_unavailable:
  assumes "\<not> dir_available env w"
  shows "\<exists>w3. \<not> audio_dir w3 \<and> generateAudio_try env text w = (Inl FsError, w3)"
  using assms
  by (intro exI [of _ "w\<lparr>tick := Suc (tick w), tick := Suc (Suc (tick w))\<rparr>"])
     (simp add: try_unfold dir_available_def)

lemma try_catch_Inr:
  "try_catch m h w = (Inr a, w') \<Longrightarrow>
     m w = (Inr a, w') \<or> (\<exists>e w1. m w = (Inl e, w1) \<and> h e w1 = (Inr a, w'))"
  by (cases "m w") (auto simp: try_catch_def split: sum.splits)

lemma try_catch_Inl:
  "try_catch m h w = (Inl e, w') \<Longrightarrow> \<exists>e1 w1. m w = (Inl e1, w1) \<and> h e1 w1 = (Inl e, w')"
  by (cases "m w") (auto simp: try_catch_def split: sum.splits)

lemma try_dir:
  assumes "dir_available env w"
  shows "audio_dir (snd (generateAudio_try env text w))"
proof -
  from try_available [OF assms, of "text"] obtain w2 where
    w2: "audio_dir w2"
    and run: "generateAudio_try env text w =
             try_catch (generateAudio_primary env text (response_name (clock env (tick w))))
               (\<lambda>apiError. generateAudio_demo env text (response_name (clock env (tick w)))) w2"
    by blast
  have "keeps audio_dir
      (try_catch (generateAudio_primary env text (response_name (clock env (tick w))))
         (\<lambda>apiError. generateAudio_demo env text (response_name (clock env (tick w)))))"
    by (intro keeps_try primary_keeps_dir demo_keeps_dir)
  with w2 run show ?thesis by (simp add: keeps_def)
qed

subsection \<open>Each tier on its own\<close>

lemma primary_result:
  "generateAudio_primary env text name w = (Inr f, w') \<Longrightarrow>
     f = name \<and> (\<exists>n. write_ok env n f) \<and>
     (\<exists>n u st d. get_outcome env n u = Reply st d \<and> disk w' f = Some (Audio d))"
  by (auto simp: generateAudio_primary_def io_defs writeFileSync_def axios_get_def
      split: sum.splits if_splits) (metis settle_Inr)

lemma primary_thrown:
  assumes "generateAudio_primary env text name w = (Inl e, w')" and "audio_dir w"
  shows "tts_query text = None \<or>
         (\<exists>q. tts_query text = Some q \<and>
            ((\<exists>e'. settle (get_outcome env (tick w) (ttsUrl q)) = Inl e') \<or>
             \<not> write_ok env (Suc (tick w)) name))"
proof (cases "tts_query text")
  case None
  then show ?thesis by simp
next
  case (Some q)
  from tts_query_Some [OF Some] obtain s where
    s: "text = JStr s" "encodeURIComponent (take 200 s) = Inr q"
    by blast
  show ?thesis
  proof (rule ccontr)
    assume "\<not> ?thesis"
    with Some obtain d where "settle (get_outcome env (tick w) (ttsUrl q)) = Inr d"
      and "write_ok env (Suc (tick w)) name"
      by (cases "settle (get_outcome env (tick w) (ttsUrl q))") auto
    from primary_up [OF assms(2) s(2) this] assms(1) s(1) show False by simp
  qed
qed

lemma primary_without_fetch:
  assumes "tts_query text = None \<or>
      (\<exists>q. tts_query text = Some q \<and> (\<forall>n. \<exists>e. settle (get_outcome env n (ttsUrl q)) = Inl e))"
  shows "\<exists>e. fst (generateAudio_primary env text name w) = Inl e"
proof (cases "tts_query text")
  case None
  from tts_query_None [OF None] show ?thesis
    by (auto simp: generateAudio_primary_def io_bind_def io_lift_def substring_take)
next
  case (Some q)
  with assms obtain e where "settle (get_outcome env (tick w) (ttsUrl q)) = Inl e"
    by auto
  moreover from tts_query_Some [OF Some] obtain s where
    "text = JStr s" "encodeURIComponent (take 200 s) = Inr q"
    by blast
  ultimately show ?thesis
    by (simp add: generateAudio_primary_def io_bind_def io_lift_def axios_get_def substring_take)
qed

lemma demo_up:
  assumes "audio_dir w" and "write_ok env (tick w) name" and "stringifiable text"
    and "write_ok env (Suc (Suc (Suc (tick w)))) (text_name (clock env (Suc (tick w))))"
  shows "generateAudio_demo env text name w =
           (Inr name,
            w\<lparr>disk := (disk w)(name \<mapsto> Audio mp3Header,
                 text_name (clock env (Suc (tick w))) \<mapsto>
                   SpokenText text (locale_time env (Suc (Suc (tick w))))),
              tick := Suc (Suc (Suc (Suc (tick w))))\<rparr>)"
  using assms
  by (simp add: generateAudio_demo_def io_defs fs_defs interpolate_def text_name_def)

lemma demo_result:
  "generateAudio_demo env text (response_name t) w = (Inr f, w') \<Longrightarrow>
     f = response_name t \<and> (\<exists>n. write_ok env n f) \<and> disk w' f = Some (Audio mp3Header)"
  by (auto simp: generateAudio_demo_def io_defs fs_defs interpolate_def response_name_def
      mp3_not_txt2 split: sum.splits if_splits)

lemma demo_thrown:
  assumes "generateAudio_demo env text name w = (Inl e, w')" and "audio_dir w"
  shows "\<not> write_ok env (tick w) name \<or> \<not> stringifiable text \<or>
         \<not> write_ok env (Suc (Suc (Suc (tick w)))) (text_name (clock env (Suc (tick w))))"
proof (rule ccontr)
  assume "\<not> ?thesis"
  then have "write_ok env (tick w) name" "stringifiable text"
    "write_ok env (Suc (Suc (Suc (tick w)))) (text_name (clock env (Suc (tick w))))"
    by simp_all
  from demo_up [OF assms(2) this] assms(1) show False by simp
qed

lemma fallback_result:
  "generateAudio_fallback env w = (Inr f, w') \<Longrightarrow>
     f = fallback_name (clock env (tick w)) \<and>
     (\<exists>n. write_ok env n f) \<and> disk w' f = Some (Audio minimalMp3)"
  by (auto simp: generateAudio_fallback_def io_defs fs_defs fallback_name_def
      split: sum.splits if_splits)

lemma fallback_error:
  "generateAudio_fallback env w = (Inl e, w') \<Longrightarrow>
     e = Error (js ''Failed to generate audio'') \<and>
     \<not> (audio_dir w \<and> write_ok env (Suc (tick w)) (fallback_name (clock env (tick w))))"
  by (auto simp: generateAudio_fallback_def io_defs fs_defs fallback_name_def
      split: sum.splits if_splits)

subsection \<open>The chain\<close>

lemma generateAudio_cases:
  obtains (upper) f w' where "generateAudio_try env text w = (Inr f, w')"
      "generateAudio env text w = (Inr f, w')"
    | (lower) e w1 where "generateAudio_try env text w = (Inl e, w1)"
      "generateAudio env text w = generateAudio_fallback env w1"
proof (cases "generateAudio_try env text w")
  case (Pair r w1)
  show ?thesis
  proof (cases r)
    case (Inl e)
    with Pair show ?thesis by (intro lower [of e w1]) (simp_all add: generateAudio_def try_catch_def)
  next
    case (Inr f)
    with Pair show ?thesis by (intro upper [of f w1]) (simp_all add: generateAudio_def try_catch_def)
  qed
qed

lemma try_result:
  assumes "generateAudio_try env text w = (Inr f, w')"
  shows "f = response_name (clock env (tick w)) \<and> (\<exists>n. write_ok env n f) \<and>
         ((\<exists>n u st d. get_outcome env n u = Reply st d \<and> disk w' f = Some (Audio d)) \<or>
          disk w' f = Some (Audio mp3Header))"
proof -
  let ?name = "response_name (clock env (tick w))"
  from assms obtain w2 where
    "try_catch (generateAudio_primary env text ?name)
        (\<lambda>apiError. generateAudio_demo env text ?name) w2 = (Inr f, w')"
    unfolding try_unfold by (metis Inl_Inr_False prod.inject)
  from try_catch_Inr [OF this]
  consider "generateAudio_primary env text ?name w2 = (Inr f, w')"
    | w3 where "generateAudio_demo env text ?name w3 = (Inr f, w')"
    by blast
  then show ?thesis
  proof cases
    case 1
    from primary_result [OF 1] show ?thesis by blast
  next
    case 2
    from demo_result [OF 2] show ?thesis by blast
  qed
qed

text \<open>The first tier: the TTS endpoint answers and the file can be written.\<close>

lemma first_tier:
  assumes avail: "dir_available env w" and q: "tts_query text = Some q"
    and fetch: "\<forall>n. settle (get_outcome env n (ttsUrl q)) = Inr d"
    and wr: "\<forall>n. write_ok env n (response_name (clock env (tick w)))"
  shows "fst (generateAudio env text w) = Inr (response_name (clock env (tick w))) \<and>
         disk (snd (generateAudio env text w)) (response_name (clock env (tick w))) =
           Some (Audio d)"
proof -
  let ?name = "response_name (clock env (tick w))"
  from tts_query_Some [OF q] obtain s where
    s: "text = JStr s" "encodeURIComponent (take 200 s) = Inr q"
    by blast
  from try_available [OF avail, of "text"] obtain w2 where
    w2: "audio_dir w2"
    and run: "generateAudio_try env text w =
             try_catch (generateAudio_primary env text ?name)
               (\<lambda>apiError. generateAudio_demo env text ?name) w2"
    by blast
  from fetch wr have "settle (get_outcome env (tick w2) (ttsUrl q)) = Inr d"
    and "write_ok env (Suc (tick w2)) ?name"
    by simp_all
  from primary_up [OF w2 s(2) this] s(1)
  have "generateAudio_primary env text ?name w2 =
      (Inr ?name, w2\<lparr>sent := sent w2 @ [Get (ttsUrl q) tts_headers],
                      tick := Suc (Suc (tick w2)),
                      disk := (disk w2)(?name \<mapsto> Audio d)\<rparr>)"
    by simp
  with run have "generateAudio env text w =
      (Inr ?name, w2\<lparr>sent := sent w2 @ [Get (ttsUrl q) tts_headers],
                      tick := Suc (Suc (tick w2)),
                      disk := (disk w2)(?name \<mapsto> Audio d)\<rparr>)"
    by (simp add: generateAudio_def try_catch_def)
  then show ?thesis by simp
qed

text \<open>The second tier: no audio can be fetched, the demo files can be written.\<close>

lemma second_tier:
  assumes avail: "dir_available env w"
    and nofetch: "tts_query text = None \<or>
      (\<exists>q. tts_query text = Some q \<and> (\<forall>n. \<exists>e. settle (get_outcome env n (ttsUrl q)) = Inl e))"
    and str: "stringifiable text"
    and wr: "\<forall>n. write_ok env n (response_name (clock env (tick w)))"
    and wrt: "\<forall>n t. write_ok env n (text_name t)"
  shows "fst (generateAudio env text w) = Inr (response_name (clock env (tick w))) \<and>
         disk (snd (generateAudio env text w)) (response_name (clock env (tick w))) =
           Some (Audio mp3Header) \<and>
         (\<exists>t g. disk (snd (generateAudio env text w)) (text_name t) = Some (SpokenText text g))"
proof -
  let ?name = "response_name (clock env (tick w))"
  from try_available [OF avail, of "text"] obtain w2 where
    w2: "audio_dir w2"
    and run: "generateAudio_try env text w =
             try_catch (generateAudio_primary env text ?name)
               (\<lambda>apiError. generateAudio_demo env text ?name) w2"
    by blast
  from primary_without_fetch [OF nofetch, of ?name w2] obtain e w3 where
    p: "generateAudio_primary env text ?name w2 = (Inl e, w3)"
    by (cases "generateAudio_primary env text ?name w2") auto
  have w3: "audio_dir w3"
    using primary_keeps_dir [of env "text" ?name] p w2 unfolding keeps_def by (metis snd_conv)
  from wr wrt have "write_ok env (tick w3) ?name"
    and "write_ok env (Suc (Suc (Suc (tick w3)))) (text_name (clock env (Suc (tick w3))))"
    by simp_all
  note demo = demo_up [OF w3 this(1) str this(2)]
  let ?W = "w3\<lparr>disk := (disk w3)(?name \<mapsto> Audio mp3Header,
                 text_name (clock env (Suc (tick w3))) \<mapsto>
                   SpokenText text (locale_time env (Suc (Suc (tick w3))))),
              tick := Suc (Suc (Suc (Suc (tick w3))))\<rparr>"
  from run p demo have g: "generateAudio env text w = (Inr ?name, ?W)"
    by (simp add: generateAudio_def try_catch_def)
  have "disk ?W ?name = Some (Audio mp3Header)"
    by (simp add: response_not_text)
  moreover have "disk ?W (text_name (clock env (Suc (tick w3)))) =
      Some (SpokenText text (locale_time env (Suc (Suc (tick w3)))))"
    by simp
  ultimately show ?thesis
    unfolding g by (simp only: fst_conv snd_conv) blast
qed

text \<open>The third tier: the response file cannot be written, the fallback file can.\<close>

lemma third_tier:
  assumes avail: "dir_available env w"
    and nowr: "\<forall>n. \<not> write_ok env n (response_name (clock env (tick w)))"
    and wrf: "\<forall>n t. write_ok env n (fallback_name t)"
  shows "\<exists>t. fst (generateAudio env text w) = Inr (fallback_name t) \<and>
           disk (snd (generateAudio env text w)) (fallback_name t) = Some (Audio minimalMp3)"
proof (cases rule: generateAudio_cases [of env "text" w])
  case (upper f w')
  from try_result [OF upper(1)] nowr show ?thesis by blast
next
  case (lower e w1)
  from try_dir [OF avail, of "text"] lower(1) have dir: "audio_dir w1" by simp
  obtain r w' where fb: "generateAudio_fallback env w1 = (r, w')"
    by (cases "generateAudio_fallback env w1")
  show ?thesis
  proof (cases r)
    case (Inl e')
    with fallback_error [of env w1 e' w'] fb dir wrf show ?thesis by simp
  next
    case (Inr f)
    with fb have run: "generateAudio_fallback env w1 = (Inr f, w')" by simp
    from fallback_result [OF run]
    have "f = fallback_name (clock env (tick w1))" and "disk w' f = Some (Audio minimalMp3)"
      by blast+
    with run lower(2) show ?thesis
      by (intro exI [of _ "clock env (tick w1)"]) simp
  qed
qed

text \<open>No tier without the directory.\<close>

lemma no_directory:
  assumes "\<not> dir_available env w"
  shows "fst (generateAudio env text w) = Inl (Error (js ''Failed to generate audio''))"
proof -
  from try_unavailable [OF assms, of "text"] obtain w3 where
    w3: "\<not> audio_dir w3" and run: "generateAudio_try env text w = (Inl FsError, w3)"
    by blast
  from w3 have "fst (generateAudio_fallback env w3) = Inl (Error (js ''Failed to generate audio''))"
    by (simp add: generateAudio_fallback_def io_defs fs_defs)
  with run show ?thesis
    by (simp add: generateAudio_def try_catch_def)
qed

text \<open>What it takes for the whole chain to throw.\<close>

lemma all_tiers_thrown:
  assumes raised: "fst (generateAudio env text w) = Inl e"
  shows "e = Error (js ''Failed to generate audio'') \<and>
         (dir_available env w \<longrightarrow>
            (tts_query text = None \<or>
             (\<exists>q n. tts_query text = Some q \<and>
                ((\<exists>e'. settle (get_outcome env n (ttsUrl q)) = Inl e') \<or>
                 \<not> write_ok env n (response_name (clock env (tick w)))))) \<and>
            (\<not> stringifiable text \<or>
             (\<exists>n. \<not> write_ok env n (response_name (clock env (tick w)))) \<or>
             (\<exists>n t. \<not> write_ok env n (text_name t))) \<and>
            (\<exists>n t. \<not> write_ok env n (fallback_name t)))"
proof (cases rule: generateAudio_cases [of env "text" w])
  case (upper f w')
  with raised show ?thesis by simp
next
  case (lower e1 w1)
  let ?name = "response_name (clock env (tick w))"
  obtain w' where fb: "generateAudio_fallback env w1 = (Inl e, w')"
    using raised lower(2) by (cases "generateAudio_fallback env w1") simp
  note last = fallback_error [OF fb]
  have "(tts_query text = None \<or>
             (\<exists>q n. tts_query text = Some q \<and>
                ((\<exists>e'. settle (get_outcome env n (ttsUrl q)) = Inl e') \<or>
                 \<not> write_ok env n ?name))) \<and>
            (\<not> stringifiable text \<or> (\<exists>n. \<not> write_ok env n ?name) \<or>
             (\<exists>n t. \<not> write_ok env n (text_name t))) \<and>
            (\<exists>n t. \<not> write_ok env n (fallback_name t))"
    if avail: "dir_available env w"
  proof -
    from try_dir [OF avail, of "text"] lower(1) have "audio_dir w1" by simp
    with last have third: "\<exists>n t. \<not> write_ok env n (fallback_name t)" by blast
    from try_available [OF avail, of "text"] lower(1) obtain w2 where
      w2: "audio_dir w2"
      and run: "try_catch (generateAudio_primary env text ?name)
               (\<lambda>apiError. generateAudio_demo env text ?name) w2 = (Inl e1, w1)"
      by auto
    from try_catch_Inl [OF run] obtain e0 w3 where
      p: "generateAudio_primary env text ?name w2 = (Inl e0, w3)"
      and d: "generateAudio_demo env text ?name w3 = (Inl e1, w1)"
      by blast
    have w3: "audio_dir w3"
      using primary_keeps_dir [of env "text" ?name] p w2 unfolding keeps_def by (metis snd_conv)
    from primary_thrown [OF p w2]
    have first: "tts_query text = None \<or>
             (\<exists>q n. tts_query text = Some q \<and>
                ((\<exists>e'. settle (get_outcome env n (ttsUrl q)) = Inl e') \<or>
                 \<not> write_ok env n ?name))"
      by blast
    from demo_thrown [OF d w3]
    have second: "\<not> stringifiable text \<or> (\<exists>n. \<not> write_ok env n ?name) \<or>
             (\<exists>n t. \<not> write_ok env n (text_name t))"
      by blast
    from first second third show ?thesis by blast
  qed
  with last show ?thesis by blast
qed

text \<open>No file name without a write that goes through.\<close>

lemma all_writes_refused:
  assumes nowr: "\<forall>n. \<not> write_ok env n (response_name (clock env (tick w)))"
    and nowrf: "\<forall>n t. \<not> write_ok env n (fallback_name t)"
  shows "fst (generateAudio env text w) = Inl (Error (js ''Failed to generate audio''))"
proof (cases rule: generateAudio_cases [of env "text" w])
  case (upper f w')
  from try_result [OF upper(1)] nowr show ?thesis by blast
next
  case (lower e w1)
  obtain r w' where fb: "generateAudio_fallback env w1 = (r, w')"
    by (cases "generateAudio_fallback env w1")
  show ?thesis
  proof (cases r)
    case (Inl e')
    with fb have run: "generateAudio_fallback env w1 = (Inl e', w')" by simp
    from fallback_error [OF run] have "e' = Error (js ''Failed to generate audio'')"
      by blast
    with run lower(2) show ?thesis by simp
  next
    case (Inr f)
    with fb have run: "generateAudio_fallback env w1 = (Inr f, w')" by simp
    from fallback_result [OF run] nowrf show ?thesis by blast
  qed
qed

lemma provider_env_no_audio:
  "chat_provider env_no_audio (JStr (js ''Hello'')) cold_start =
     (Inr sample_chat_reply,
      snd (chat_provider env_no_audio (JStr (js ''Hello'')) cold_start))"
  by (simp add: chat_provider_def getOrCreateAssistant_def cold_start_def startup_def
      axios_post_def env_no_audio_def provider_up_def set_ASSISTANT_ID_def io_defs url_neq)

lemma tts_query_hi: "tts_query (JStr (js ''Hi'')) = Some (js ''Hi'')"
  by (simp add: tts_query_def enc_hi)

lemma cold_start_dir: "audio_dir cold_start"
  by (simp add: cold_start_def startup_def)

lemma cold_start_tick: "tick cold_start = 0"
  by (simp add: cold_start_def startup_def)

lemma response_1000: "response_name 1000 = js ''response_1000.mp3''"
  by (simp add: response_name_def name_1000)

lemma response_not_fallback: "take 9 (response_name t) \<noteq> js ''fallback_''"
  by (simp add: response_name_def js_def)

lemma fallback_prefix: "take 9 (fallback_name t) = js ''fallback_''"
  by (simp add: fallback_name_def js_def)

text \<open>
  Claim C2. \<^verbatim>\<open>generateAudio\<close> works through three tiers, and each of them is reached and
  produces its file. Throughout, the response file is the one named after the clock
  reading at the start of the call, and the audio directory is available when it exists
  or can be created.

  \<^enum> Whenever a file name is returned, the file is on disk afterwards: a \<^verbatim>\<open>response_\<close>
    file holding the bytes the TTS endpoint sent or the demo MP3, or a \<^verbatim>\<open>fallback_\<close> file
    holding the minimal MP3.
  \<^enum> First tier: with the directory available, a text whose first 200 code units can be
    encoded, a TTS endpoint that answers and a response file that can be written, the
    response file is returned and holds the bytes the endpoint sent.
  \<^enum> Second tier: with the directory available, no TTS audio to be had (the text is not a
    string, cannot be encoded, or the endpoint rejects the request), a text that a template
    literal can render, and the response file and the text file writable, the response
    file is returned and holds the demo MP3, and a text file quotes the text.
  \<^enum> Third tier: with the directory available, a response file that cannot be written and
    a fallback file that can, a \<^verbatim>\<open>fallback_\<close> file is returned and holds the minimal MP3.
  \<^enum> Without the directory, or with neither the response file nor any fallback file
    writable, the call throws \<^verbatim>\<open>Failed to generate audio\<close>.
  \<^enum> A throw is always \<^verbatim>\<open>Failed to generate audio\<close>: the block of the first two tiers
    has thrown and the write of the fallback file was refused. With the directory
    available this needs every tier to fail: the first by a text without encodable
    prefix, a rejected TTS request or a refused write of the response file; the second by
    a text that cannot be rendered or a refused write of the response file or the text
    file; the third by a refused write of the fallback file.
  \<^enum> In the chat handler a throwing audio generation is caught: the answer is status 200
    with the assistant's text and \<^verbatim>\<open>audioFileName: null\<close>.
\<close>

theorem synthesis_tiers:
  "(\<forall>f. fst (generateAudio env text w) = Inr f \<longrightarrow>
      (\<exists>t. f = response_name t \<and>
         ((\<exists>n u st d. get_outcome env n u = Reply st d \<and>
             disk (snd (generateAudio env text w)) f = Some (Audio d)) \<or>
          disk (snd (generateAudio env text w)) f = Some (Audio mp3Header))) \<or>
      (\<exists>t. f = fallback_name t \<and>
         disk (snd (generateAudio env text w)) f = Some (Audio minimalMp3))) \<and>
   (\<forall>q d.
      dir_available env w \<and> tts_query text = Some q \<and>
      (\<forall>n. settle (get_outcome env n (ttsUrl q)) = Inr d) \<and>
      (\<forall>n. write_ok env n (response_name (clock env (tick w)))) \<longrightarrow>
      fst (generateAudio env text w) = Inr (response_name (clock env (tick w))) \<and>
      disk (snd (generateAudio env text w)) (response_name (clock env (tick w))) =
        Some (Audio d)) \<and>
   (dir_available env w \<and>
    (tts_query text = None \<or>
     (\<exists>q. tts_query text = Some q \<and>
        (\<forall>n. \<exists>e. settle (get_outcome env n (ttsUrl q)) = Inl e))) \<and>
    stringifiable text \<and>
    (\<forall>n. write_ok env n (response_name (clock env (tick w)))) \<and>
    (\<forall>n t. write_ok env n (text_name t)) \<longrightarrow>
      fst (generateAudio env text w) = Inr (response_name (clock env (tick w))) \<and>
      disk (snd (generateAudio env text w)) (response_name (clock env (tick w))) =
        Some (Audio mp3Header) \<and>
      (\<exists>t g. disk (snd (generateAudio env text w)) (text_name t) =
         Some (SpokenText text g))) \<and>
   (dir_available env w \<and>
    (\<forall>n. \<not> write_ok env n (response_name (clock env (tick w)))) \<and>
    (\<forall>n t. write_ok env n (fallback_name t)) \<longrightarrow>
      (\<exists>t. fst (generateAudio env text w) = Inr (fallback_name t) \<and>
         disk (snd (generateAudio env text w)) (fallback_name t) = Some (Audio minimalMp3))) \<and>
   (\<not> dir_available env w \<or>
    ((\<forall>n. \<not> write_ok env n (response_name (clock env (tick w)))) \<and>
     (\<forall>n t. \<not> write_ok env n (fallback_name t))) \<longrightarrow>
      fst (generateAudio env text w) = Inl (Error (js ''Failed to generate audio''))) \<and>
   (\<forall>e. fst (generateAudio env text w) = Inl e \<longrightarrow>
      e = Error (js ''Failed to generate audio'') \<and>
      (\<exists>e1. fst (generateAudio_try env text w) = Inl e1) \<and>
      \<not> (audio_dir (snd (generateAudio_try env text w)) \<and>
         write_ok env (Suc (tick (snd (generateAudio_try env text w))))
           (fallback_name (clock env (tick (snd (generateAudio_try env text w)))))) \<and>
      (dir_available env w \<longrightarrow>
         (tts_query text = None \<or>
          (\<exists>q n. tts_query text = Some q \<and>
             ((\<exists>e'. settle (get_outcome env n (ttsUrl q)) = Inl e') \<or>
              \<not> write_ok env n (response_name (clock env (tick w)))))) \<and>
         (\<not> stringifiable text \<or>
          (\<exists>n. \<not> write_ok env n (response_name (clock env (tick w)))) \<or>
          (\<exists>n t. \<not> write_ok env n (text_name t))) \<and>
         (\<exists>n t. \<not> write_ok env n (fallback_name t)))) \<and>
   (\<forall>m vr out e.
      get_prop reqbody (js ''message'') = Inr m \<and> truthy m \<and>
      fst (chat_provider env m w0) = Inr vr \<and> get_prop vr (js ''output'') = Inr out \<and>
      fst (generateAudio env (assistantMessage out) (snd (chat_provider env m w0))) = Inl e \<longrightarrow>
      fst (chat env reqbody w0) =
        res_json 200
          [(js ''response'', assistantMessage out),
           (js ''audioFileName'', JNull),
           (js ''chatId'', opt_prop vr (js ''id'')),
           (js ''cost'', js_or (opt_prop vr (js ''cost'')) (JNum 0))])"
  (is "?returned \<and> ?first \<and> ?second \<and> ?third \<and> ?none \<and> ?thrown \<and> ?caught")
proof -
  have returned: ?returned
  proof (intro allI impI)
    fix f
    assume got: "fst (generateAudio env text w) = Inr f"
    show "(\<exists>t. f = response_name t \<and>
         ((\<exists>n u st d. get_outcome env n u = Reply st d \<and>
             disk (snd (generateAudio env text w)) f = Some (Audio d)) \<or>
          disk (snd (generateAudio env text w)) f = Some (Audio mp3Header))) \<or>
      (\<exists>t. f = fallback_name t \<and>
         disk (snd (generateAudio env text w)) f = Some (Audio minimalMp3))"
    proof (cases rule: generateAudio_cases [of env "text" w])
      case (upper f' w')
      with got have "f' = f" by simp
      with try_result [OF upper(1)] upper(2) show ?thesis by auto
    next
      case (lower e w1)
      obtain w' where fb: "generateAudio_fallback env w1 = (Inr f, w')"
        using got lower(2) by (cases "generateAudio_fallback env w1") simp
      from fallback_result [OF fb] lower(2) fb show ?thesis by auto
    qed
  qed
  have first: ?first
    using first_tier [of env w "text"] by blast
  have second: ?second
    using second_tier [of env w "text"] by blast
  have third: ?third
    using third_tier [of env w "text"] by blast
  have none: ?none
    using no_directory [of env w "text"] all_writes_refused [of env w "text"] by blast
  have thrown: ?thrown
  proof (intro allI impI)
    fix e
    assume got: "fst (generateAudio env text w) = Inl e"
    have "(\<exists>e1. fst (generateAudio_try env text w) = Inl e1) \<and>
      \<not> (audio_dir (snd (generateAudio_try env text w)) \<and>
         write_ok env (Suc (tick (snd (generateAudio_try env text w))))
           (fallback_name (clock env (tick (snd (generateAudio_try env text w))))))"
    proof (cases rule: generateAudio_cases [of env "text" w])
      case (upper f' w')
      with got show ?thesis by simp
    next
      case (lower e1 w1)
      obtain w' where fb: "generateAudio_fallback env w1 = (Inl e, w')"
        using got lower(2) by (cases "generateAudio_fallback env w1") simp
      from fallback_error [OF fb] lower(1) show ?thesis by simp
    qed
    with all_tiers_thrown [OF got]
    show "e = Error (js ''Failed to generate audio'') \<and>
      (\<exists>e1. fst (generateAudio_try env text w) = Inl e1) \<and>
      \<not> (audio_dir (snd (generateAudio_try env text w)) \<and>
         write_ok env (Suc (tick (snd (generateAudio_try env text w))))
           (fallback_name (clock env (tick (snd (generateAudio_try env text w)))))) \<and>
      (dir_available env w \<longrightarrow>
         (tts_query text = None \<or>
          (\<exists>q n. tts_query text = Some q \<and>
             ((\<exists>e'. settle (get_outcome env n (ttsUrl q)) = Inl e') \<or>
              \<not> write_ok env n (response_name (clock env (tick w)))))) \<and>
         (\<not> stringifiable text \<or>
          (\<exists>n. \<not> write_ok env n (response_name (clock env (tick w)))) \<or>
          (\<exists>n t. \<not> write_ok env n (text_name t))) \<and>
         (\<exists>n t. \<not> write_ok env n (fallback_name t)))"
      by (intro conjI) (erule conjE, assumption)+
  qed
  have caught: ?caught
  proof (intro allI impI, (erule conjE)+)
    fix m vr out e
    assume m: "get_prop reqbody (js ''message'') = Inr m" and tr: "truthy m"
      and prv: "fst (chat_provider env m w0) = Inr vr"
      and out: "get_prop vr (js ''output'') = Inr out"
      and audio: "fst (generateAudio env (assistantMessage out) (snd (chat_provider env m w0))) = Inl e"
    obtain w2 where p: "chat_provider env m w0 = (Inr vr, w2)"
      using prv by (cases "chat_provider env m w0") simp
    have "chat_try env reqbody w0 = chat_respond env vr w2"
      using chat_try_truthy [OF m tr, of env] bind_Inr [of "chat_provider env m" w0 vr w2, OF p]
      by simp
    with chat_respond_eval [OF out, of env w2] audio p
    have "fst (chat_try env reqbody w0) =
        Inr (res_json 200
          [(js ''response'', assistantMessage out),
           (js ''audioFileName'', JNull),
           (js ''chatId'', opt_prop vr (js ''id'')),
           (js ''cost'', js_or (opt_prop vr (js ''cost'')) (JNum 0))])"
      by simp
    then show "fst (chat env reqbody w0) =
        res_json 200
          [(js ''response'', assistantMessage out),
           (js ''audioFileName'', JNull),
           (js ''chatId'', opt_prop vr (js ''id'')),
           (js ''cost'', js_or (opt_prop vr (js ''cost'')) (JNum 0))]"
      by (rule chat_returns)
  qed
  from returned first second third none thrown caught show ?thesis
    by (intro conjI)
qed

theorem synthesis_tiers_witness:
  "fst (generateAudio env_up (JStr (js ''Hi'')) cold_start) = Inr (js ''response_1000.mp3'') \<and>
   disk (snd (generateAudio env_up (JStr (js ''Hi'')) cold_start)) (js ''response_1000.mp3'') =
     Some (Audio [1, 2, 3]) \<and>
   fst (generateAudio env_tts_down (JStr (js ''Hi'')) cold_start) =
     Inr (js ''response_1000.mp3'') \<and>
   disk (snd (generateAudio env_tts_down (JStr (js ''Hi'')) cold_start))
     (js ''response_1000.mp3'') = Some (Audio mp3Header) \<and>
   (\<exists>t g. disk (snd (generateAudio env_tts_down (JStr (js ''Hi'')) cold_start)) (text_name t) =
      Some (SpokenText (JStr (js ''Hi'')) g)) \<and>
   (\<exists>t. fst (generateAudio env_fallback_only (JStr (js ''Hi'')) cold_start) =
        Inr (fallback_name t) \<and>
      disk (snd (generateAudio env_fallback_only (JStr (js ''Hi'')) cold_start))
        (fallback_name t) = Some (Audio minimalMp3)) \<and>
   fst (generateAudio env_no_audio (JStr (js ''Hi there!''))
          (snd (chat_provider env_no_audio (JStr (js ''Hello'')) cold_start))) =
     Inl (Error (js ''Failed to generate audio'')) \<and>
   fst (chat env_no_audio hello_body cold_start) =
     res_json 200
       [(js ''response'', JStr (js ''Hi there!'')),
        (js ''audioFileName'', JNull),
        (js ''chatId'', JStr (js ''c1'')),
        (js ''cost'', JNum (2 / 1000))]"
proof -
  let ?hi = "JStr (js ''Hi'')"
  let ?w2 = "snd (chat_provider env_no_audio (JStr (js ''Hello'')) cold_start)"
  note up = synthesis_tiers [of env_up ?hi cold_start hello_body cold_start]
  note tts_down = synthesis_tiers [of env_tts_down ?hi cold_start hello_body cold_start]
  note fallback_only = synthesis_tiers [of env_fallback_only ?hi cold_start hello_body cold_start]
  note down = synthesis_tiers [of env_no_audio "JStr (js ''Hi there!'')" ?w2 hello_body cold_start]
  have dir: "dir_available env cold_start" for env
    by (simp add: dir_available_def cold_start_dir)
  have name_up: "response_name (clock env_up (tick cold_start)) = js ''response_1000.mp3''"
    by (simp add: env_up_def cold_start_tick response_1000)
  have name_tts_down:
    "response_name (clock env_tts_down (tick cold_start)) = js ''response_1000.mp3''"
    by (simp add: env_tts_down_def cold_start_tick response_1000)
  have "\<forall>n. settle (get_outcome env_up n (ttsUrl (js ''Hi''))) = Inr [1, 2, 3]"
    and "\<forall>n. write_ok env_up n (response_name (clock env_up (tick cold_start)))"
    by (simp_all add: env_up_def)
  with up dir [of env_up] tts_query_hi
  have "fst (generateAudio env_up ?hi cold_start) =
      Inr (response_name (clock env_up (tick cold_start))) \<and>
    disk (snd (generateAudio env_up ?hi cold_start))
      (response_name (clock env_up (tick cold_start))) = Some (Audio [1, 2, 3])"
    by blast
  then have first: "fst (generateAudio env_up ?hi cold_start) = Inr (js ''response_1000.mp3'') \<and>
    disk (snd (generateAudio env_up ?hi cold_start)) (js ''response_1000.mp3'') =
      Some (Audio [1, 2, 3])"
    by (simp only: name_up)
  have "\<forall>n. \<exists>e. settle (get_outcome env_tts_down n (ttsUrl (js ''Hi''))) = Inl e"
    and "stringifiable ?hi"
    and "\<forall>n. write_ok env_tts_down n (response_name (clock env_tts_down (tick cold_start)))"
    and "\<forall>n t. write_ok env_tts_down n (text_name t)"
    by (simp_all add: env_tts_down_def)
  with tts_down dir [of env_tts_down] tts_query_hi
  have "fst (generateAudio env_tts_down ?hi cold_start) =
      Inr (response_name (clock env_tts_down (tick cold_start))) \<and>
    disk (snd (generateAudio env_tts_down ?hi cold_start))
      (response_name (clock env_tts_down (tick cold_start))) = Some (Audio mp3Header) \<and>
    (\<exists>t g. disk (snd (generateAudio env_tts_down ?hi cold_start)) (text_name t) =
       Some (SpokenText ?hi g))"
    by blast
  then have second: "fst (generateAudio env_tts_down ?hi cold_start) =
      Inr (js ''response_1000.mp3'') \<and>
    disk (snd (generateAudio env_tts_down ?hi cold_start)) (js ''response_1000.mp3'') =
      Some (Audio mp3Header) \<and>
    (\<exists>t g. disk (snd (generateAudio env_tts_down ?hi cold_start)) (text_name t) =
       Some (SpokenText ?hi g))"
    by (simp only: name_tts_down)
  have "\<forall>n. \<not> write_ok env_fallback_only n
      (response_name (clock env_fallback_only (tick cold_start)))"
    and "\<forall>n t. write_ok env_fallback_only n (fallback_name t)"
    by (simp_all add: env_fallback_only_def response_not_fallback fallback_prefix)
  with fallback_only dir [of env_fallback_only]
  have third: "\<exists>t. fst (generateAudio env_fallback_only ?hi cold_start) = Inr (fallback_name t) \<and>
      disk (snd (generateAudio env_fallback_only ?hi cold_start)) (fallback_name t) =
        Some (Audio minimalMp3)"
    by blast
  have "\<forall>n. \<not> write_ok env_no_audio n (response_name (clock env_no_audio (tick ?w2)))"
    and "\<forall>n t. \<not> write_ok env_no_audio n (fallback_name t)"
    by (simp_all add: env_no_audio_def)
  with down
  have raised: "fst (generateAudio env_no_audio (JStr (js ''Hi there!'')) ?w2) =
      Inl (Error (js ''Failed to generate audio''))"
    by blast
  have prv: "fst (chat_provider env_no_audio (JStr (js ''Hello'')) cold_start) = Inr sample_chat_reply"
    using provider_env_no_audio by (metis fst_conv)
  from raised
  have raised': "fst (generateAudio env_no_audio
      (assistantMessage (JArr [JObj [(js ''content'', JStr (js ''Hi there!''))]])) ?w2) =
      Inl (Error (js ''Failed to generate audio''))"
    by (simp only: sample_message)
  from down get_hello hello_truthy prv sample_output raised'
  have "fst (chat env_no_audio hello_body cold_start) =
      res_json 200
        [(js ''response'', assistantMessage (JArr [JObj [(js ''content'', JStr (js ''Hi there!''))]])),
         (js ''audioFileName'', JNull),
         (js ''chatId'', opt_prop sample_chat_reply (js ''id'')),
         (js ''cost'', js_or (opt_prop sample_chat_reply (js ''cost'')) (JNum 0))]"
    by blast
  then have fourth: "fst (chat env_no_audio hello_body cold_start) =
     res_json 200
       [(js ''response'', JStr (js ''Hi there!'')),
        (js ''audioFileName'', JNull),
        (js ''chatId'', JStr (js ''c1'')),
        (js ''cost'', JNum (2 / 1000))]"
    by (simp only: sample_message sample_id sample_cost)
  from first second third raised fourth show ?thesis
    by blast
qed

end
